theory Spec2Isabelle
  imports Main "HOL-Library.Sublist"
begin

section \<open>Data model of RelayNetwork.js\<close>

text \<open>
  JSON values and the operation's variables are opaque to the network layer; they
  are carried around and never inspected. A JavaScript value that may be
  \<^verbatim>\<open>null\<close> or \<^verbatim>\<open>undefined\<close> is an \<open>option\<close>, with \<open>None\<close> for both.
\<close>

type_synonym json = string
type_synonym variables = "(string \<times> json) list"
type_synonym uploadable_map = "(string \<times> string) list"

text \<open>\<^verbatim>\<open>operation.query.operation\<close> and \<^verbatim>\<open>operation.name\<close> are the only fields of a
  \<^verbatim>\<open>ConcreteBatch\<close> the file reads.\<close>

record query_node =
  q_operation :: string

record concrete_batch =
  b_name :: string
  b_query :: query_node

record cache_config =
  cfg_force :: "bool option"
  cfg_poll :: "int option"
  cfg_liveConfigId :: "string option"
  cfg_metadata :: "(string \<times> json) list option"

record payload_error =
  e_message :: string

record query_payload =
  p_data :: "json option"
  p_errors :: "payload_error list option"

text \<open>The \<^verbatim>\<open>source\<close> property that \<^verbatim>\<open>normalizePayload\<close> attaches to its error.\<close>

record error_source =
  src_errors :: "payload_error list option"
  src_operation :: concrete_batch
  src_variables :: variables

record relay_error =
  re_name :: string
  re_message :: string
  re_source :: "error_source option"

datatype js_arg = ArgStr string | ArgNum int

text \<open>
  Everything the file can throw or pass along as an error: a failed
  \<^verbatim>\<open>invariant(cond, format, args)\<close> (format and arguments kept apart), an error built
  by \<^verbatim>\<open>RelayError.create\<close>, the \<^verbatim>\<open>TypeError\<close> of destructuring \<^verbatim>\<open>null\<close>, and any
  error value that comes from outside (the fetch function, the normalizer, an
  observer callback).
\<close>

datatype js_error =
    InvariantViolation string "js_arg list"
  | RelayError relay_error
  | TypeError string
  | Thrown string

text \<open>
  A promise is modelled by how it eventually settles; \<open>NeverSettles\<close> is a promise
  that stays pending for ever. When it settles is decided by the event sequence
  of the event loop below.
\<close>

datatype 'a promise = Resolves 'a | Rejects js_error | NeverSettles

text \<open>
  The tagged result of a fetch (\<^verbatim>\<open>kind: 'promise' | 'data' | 'error'\<close>). Flow's type
  has three kinds; at run time any other tag can arrive, which is \<open>KindOther\<close> with
  the tag. The carried value may be \<^verbatim>\<open>null\<close>.
\<close>

datatype 'a response =
    KindPromise "'a option promise"
  | KindData "'a option"
  | KindError js_error
  | KindOther string

text \<open>
  The modules the file imports that are not part of it: \<^verbatim>\<open>ROOT_ID\<close> of
  \<^verbatim>\<open>RelayStoreUtils\<close> and \<^verbatim>\<open>normalizeRelayPayload\<close>, which may throw. They are
  parameters of the model.
\<close>

record selector =
  dataID :: string
  node :: query_node
  sel_variables :: variables

record normalize_options =
  handleStrippedNulls :: bool

record 'n modules =
  ROOT_ID :: string
  normalizeRelayPayload ::
    "selector \<Rightarrow> json \<Rightarrow> payload_error list option \<Rightarrow> normalize_options \<Rightarrow> js_error + 'n"

section \<open>String helpers\<close>

text \<open>\<^verbatim>\<open>Array.prototype.join\<close> on strings.\<close>

fun join :: "string \<Rightarrow> string list \<Rightarrow> string" where
  "join sep [] = []"
| "join sep [x] = x"
| "join sep (x # y # ys) = x @ sep @ join sep (y # ys)"

text \<open>
  Modelled from the spec: \<^verbatim>\<open>RelayError.create(name, format, ...args)\<close> lives in the
  module \<^verbatim>\<open>RelayError\<close>, which is not among the sources. The spec asks for an error
  with a human-readable message that enumerates the server-reported messages; the
  model builds the message by replacing each \<^verbatim>\<open>%s\<close> of the format by the next
  argument, left to right, without scanning the inserted text again, and names
  the error \<open>name\<close>.
\<close>

fun sprintf :: "string \<Rightarrow> string list \<Rightarrow> string" where
  "sprintf (c # d # rest) args =
     (if c = CHR ''%'' \<and> d = CHR ''s''
      then (case args of
              [] \<Rightarrow> ''undefined'' @ sprintf rest []
            | a # as \<Rightarrow> a @ sprintf rest as)
      else c # sprintf (d # rest) args)"
| "sprintf fmt args = fmt"

definition RelayError_create :: "string \<Rightarrow> string \<Rightarrow> string list \<Rightarrow> relay_error" where
  "RelayError_create name format args =
     \<lparr>re_name = name, re_message = sprintf format args, re_source = None\<rparr>"

section \<open>normalizePayload\<close>

definition no_data_format :: string where
  "no_data_format =
     ''No data returned for operation `%s`, got error(s):'' @ [CHR 0x0A] @ ''%s'' @
     [CHR 0x0A, CHR 0x0A] @ ''See the error `source` property for more information.''"

definition error_messages :: "payload_error list option \<Rightarrow> string" where
  "error_messages errors =
     (case errors of
        Some es \<Rightarrow> join [CHR 0x0A] (map e_message es)
      | None \<Rightarrow> ''(No errors)'')"

text \<open>
  \<^verbatim>\<open>const {data, errors} = payload\<close> throws a \<^verbatim>\<open>TypeError\<close> when the payload is
  \<^verbatim>\<open>null\<close>; \<^verbatim>\<open>data != null\<close> is false for both \<^verbatim>\<open>null\<close> and \<^verbatim>\<open>undefined\<close>.
\<close>

definition normalizePayload ::
  "'n modules \<Rightarrow> concrete_batch \<Rightarrow> variables \<Rightarrow> query_payload option \<Rightarrow> js_error + 'n" where
  "normalizePayload I operation variables payload =
     (case payload of
        None \<Rightarrow> Inl (TypeError ''Cannot destructure payload'')
      | Some p \<Rightarrow>
          (case p_data p of
             Some d \<Rightarrow>
               normalizeRelayPayload I
                 \<lparr>dataID = ROOT_ID I, node = b_query operation, sel_variables = variables\<rparr>
                 d (p_errors p) \<lparr>handleStrippedNulls = True\<rparr>
           | None \<Rightarrow>
               Inl (RelayError
                 ((RelayError_create ''RelayNetwork'' no_data_format
                     [b_name operation, error_messages (p_errors p)])
                  \<lparr>re_source := Some \<lparr>src_errors = p_errors p, src_operation = operation,
                                       src_variables = variables\<rparr>\<rparr>))))"

section \<open>Observers, effects and the state of one execution\<close>

text \<open>
  What an observer callback does that the network layer can see: it may call
  \<^verbatim>\<open>dispose()\<close> on the handle of the execution, and it may throw.
\<close>

record cb =
  cb_disposes :: bool
  cb_throws :: "js_error option"

text \<open>\<^verbatim>\<open>{onCompleted, onError, onNext}\<close>: each handler may be absent.\<close>

record 'n observer =
  onCompleted :: "cb option"
  onError :: "(js_error \<Rightarrow> cb) option"
  onNext :: "('n option \<Rightarrow> cb) option"

text \<open>
  The trace of one execution: the calls that leave the file (fetch, subscribe, the
  observer's callbacks, the host's timers), the calls of the handle's
  \<^verbatim>\<open>dispose\<close>, and the errors that surface asynchronously (an unhandled rejection,
  the throw that \<^verbatim>\<open>rethrow\<close> schedules).
\<close>

datatype 'n event =
    Ev_fetch concrete_batch variables "cache_config option" "uploadable_map option"
  | Ev_subscribe concrete_batch variables "cache_config option"
  | Ev_onNext "'n option"
  | Ev_onError js_error
  | Ev_onCompleted
  | Ev_dispose
  | Ev_setTimeout nat int
  | Ev_clearTimeout nat
  | Ev_unhandledRejection js_error
  | Ev_rethrow js_error
  | Ev_uncaught js_error

text \<open>
  A promise reaction that has been attached and has not run yet, one constructor
  for each place of the file that attaches one:
  \<^item> \<open>ThenSuccess\<close>: \<^verbatim>\<open>Promise.resolve(requestResponse.data).then(onRequestSuccess)\<close>;
  \<^item> \<open>ThenError\<close>: \<^verbatim>\<open>Promise.reject(requestResponse.error).then(onRequestError)\<close>, where
    \<^verbatim>\<open>onRequestError\<close> is the handler for fulfilment;
  \<^item> \<open>ThenBoth\<close>: \<^verbatim>\<open>requestResponse.promise.then(onRequestSuccess, onRequestError)\<close>;
  \<^item> \<open>ThenPoll\<close>: \<^verbatim>\<open>promise.then(payload => {...}, onRequestError).catch(rethrow)\<close> of
    \<^verbatim>\<open>poll\<close>.
\<close>

datatype 'n pending =
    ThenSuccess "query_payload option promise"
  | ThenError "js_error promise"
  | ThenBoth "query_payload option promise"
  | ThenPoll "'n option promise"

text \<open>
  The closure variables \<^verbatim>\<open>isDisposed\<close> and \<^verbatim>\<open>timeout\<close> of an execution, and what
  the host holds for it: the timers that are set and not yet fired or cleared
  (\<open>timers\<close>, timer ids start at 1 and are truthy), the attached reactions, the
  number of calls of the fetch function so far, and the trace.
\<close>

record 'n state =
  isDisposed :: bool
  timeout :: "nat option"
  timers :: "nat list"
  next_timer :: nat
  pending :: "'n pending list"
  n_fetch :: nat
  trace :: "'n event list"

definition fresh :: "'n state" where
  "fresh = \<lparr>isDisposed = False, timeout = None, timers = [], next_timer = 1,
            pending = [], n_fetch = 0, trace = []\<rparr>"

text \<open>
  The fetch function is supplied by the caller and may answer differently on each
  call: its first argument here is the number of calls made before this one. It
  returns a response, as its type \<^verbatim>\<open>FetchFunction\<close> says; a fetch function that
  throws is not modelled.
\<close>

type_synonym fetch_function =
  "nat \<Rightarrow> concrete_batch \<Rightarrow> variables \<Rightarrow> cache_config option \<Rightarrow> uploadable_map option
     \<Rightarrow> query_payload response"

text \<open>A piece of code that runs on the state and returns normally (\<open>None\<close>) or
  throws (\<open>Some e\<close>).\<close>

type_synonym 'n act = "'n state \<Rightarrow> js_error option \<times> 'n state"

definition log :: "'n event \<Rightarrow> 'n state \<Rightarrow> 'n state" where
  "log ev s = s\<lparr>trace := trace s @ [ev]\<rparr>"

definition call_fetch ::
  "fetch_function \<Rightarrow> concrete_batch \<Rightarrow> variables \<Rightarrow> cache_config option
     \<Rightarrow> uploadable_map option \<Rightarrow> 'n state \<Rightarrow> query_payload response \<times> 'n state" where
  "call_fetch fetch operation variables cacheConfig uploadables s =
     (fetch (n_fetch s) operation variables cacheConfig uploadables,
      log (Ev_fetch operation variables cacheConfig uploadables) (s\<lparr>n_fetch := n_fetch s + 1\<rparr>))"

text \<open>\<^verbatim>\<open>handler && handler(args)\<close>: the call is recorded, then the callback may dispose
  the handle (\<open>dispose\<close> is the handle's own function) and may throw.\<close>

definition call_cb :: "('n state \<Rightarrow> 'n state) \<Rightarrow> 'n event \<Rightarrow> cb option \<Rightarrow> 'n act" where
  "call_cb dispose ev handler s =
     (case handler of
        None \<Rightarrow> (None, s)
      | Some b \<Rightarrow> (cb_throws b, (if cb_disposes b then dispose (log ev s) else log ev s)))"

text \<open>
  \<^verbatim>\<open>p.then(f)\<close> as a value: the derived promise is fulfilled with what \<open>f\<close> returns,
  rejected with what \<open>f\<close> throws, and rejected as \<open>p\<close> is when \<open>p\<close> is rejected.
\<close>

definition then_promise :: "'a promise \<Rightarrow> ('a \<Rightarrow> js_error + 'b) \<Rightarrow> 'b promise" where
  "then_promise p f =
     (case p of
        Resolves v \<Rightarrow> (case f v of Inl e \<Rightarrow> Rejects e | Inr y \<Rightarrow> Resolves y)
      | Rejects e \<Rightarrow> Rejects e
      | NeverSettles \<Rightarrow> NeverSettles)"

text \<open>
  The reaction \<^verbatim>\<open>p.then(onFulfilled, onRejected)\<close> when the host runs it: \<open>None\<close> while
  \<open>p\<close> is pending, otherwise how the derived promise settles (\<open>None\<close> fulfilled,
  \<open>Some e\<close> rejected with \<open>e\<close>) and the state the handler leaves. A missing handler
  passes the settlement through.
\<close>

definition react ::
  "'a promise \<Rightarrow> ('a \<Rightarrow> 'n act) option \<Rightarrow> (js_error \<Rightarrow> 'n act) option \<Rightarrow> 'n state
     \<Rightarrow> (js_error option \<times> 'n state) option" where
  "react p onFulfilled onRejected s =
     (case p of
        NeverSettles \<Rightarrow> None
      | Resolves v \<Rightarrow> Some (case onFulfilled of None \<Rightarrow> (None, s) | Some f \<Rightarrow> f v s)
      | Rejects e \<Rightarrow> Some (case onRejected of None \<Rightarrow> (Some e, s) | Some g \<Rightarrow> g e s))"

section \<open>request\<close>

text \<open>
  \<^verbatim>\<open>(response.data && onSuccess(response.data)) || null\<close>: a \<^verbatim>\<open>null\<close> payload is not
  normalized; a normalized payload is an object, hence truthy, and is what the
  expression yields. \<^verbatim>\<open>invariant(false, ...)\<close> throws.
\<close>

definition request ::
  "'n modules \<Rightarrow> fetch_function \<Rightarrow> concrete_batch \<Rightarrow> variables \<Rightarrow> cache_config option
     \<Rightarrow> uploadable_map option \<Rightarrow> 'n state \<Rightarrow> (js_error + 'n response) \<times> 'n state" where
  "request I fetch operation variables cacheConfig uploadables s =
     (let onSuccess = (\<lambda>payload. normalizePayload I operation variables payload);
          (response, s1) = call_fetch fetch operation variables cacheConfig uploadables s
      in case response of
           KindPromise promise \<Rightarrow>
             (Inr (KindPromise (then_promise promise (\<lambda>payload. map_sum id Some (onSuccess payload)))), s1)
         | KindData d \<Rightarrow>
             (case d of
                None \<Rightarrow> (Inr (KindData None), s1)
              | Some x \<Rightarrow>
                  (case onSuccess (Some x) of
                     Inl e \<Rightarrow> (Inl e, s1)
                   | Inr n \<Rightarrow> (Inr (KindData (Some n)), s1)))
         | KindError e \<Rightarrow> (Inr (KindError e), s1)
         | KindOther kind \<Rightarrow>
             (Inl (InvariantViolation ''RelayNetwork: unsupported response kind `%s`''
                     [ArgStr kind]), s1))"

section \<open>requestStream: the one-shot path\<close>

text \<open>The handle's \<^verbatim>\<open>dispose() { isDisposed = true; }\<close>.\<close>

definition dispose_oneshot :: "'n state \<Rightarrow> 'n state" where
  "dispose_oneshot s = (log Ev_dispose s)\<lparr>isDisposed := True\<rparr>"

definition onRequestSuccess ::
  "'n modules \<Rightarrow> concrete_batch \<Rightarrow> variables \<Rightarrow> 'n observer \<Rightarrow> query_payload option \<Rightarrow> 'n act" where
  "onRequestSuccess I operation variables obs payload s =
     (if isDisposed s then (None, s)
      else
        (case normalizePayload I operation variables payload of
           Inl err \<Rightarrow>
             call_cb dispose_oneshot (Ev_onError err) (map_option (\<lambda>h. h err) (onError obs)) s
         | Inr relayPayload \<Rightarrow>
             (case call_cb dispose_oneshot (Ev_onNext (Some relayPayload))
                     (map_option (\<lambda>h. h (Some relayPayload)) (onNext obs)) s of
                (Some e, s1) \<Rightarrow> (Some e, s1)
              | (None, s1) \<Rightarrow> call_cb dispose_oneshot Ev_onCompleted (onCompleted obs) s1)))"

definition onRequestError :: "'n observer \<Rightarrow> js_error \<Rightarrow> 'n act" where
  "onRequestError obs error s =
     (if isDisposed s then (None, s)
      else call_cb dispose_oneshot (Ev_onError error) (map_option (\<lambda>h. h error) (onError obs)) s)"

section \<open>doFetchWithPolling\<close>

definition clearTimeout :: "nat \<Rightarrow> 'n state \<Rightarrow> 'n state" where
  "clearTimeout t s = (log (Ev_clearTimeout t) s)\<lparr>timers := removeAll t (timers s)\<rparr>"

text \<open>\<^verbatim>\<open>timeout = setTimeout(poll, pollInterval)\<close>.\<close>

definition setTimeout_poll :: "int \<Rightarrow> 'n state \<Rightarrow> 'n state" where
  "setTimeout_poll pollInterval s =
     (log (Ev_setTimeout (next_timer s) pollInterval) s)
       \<lparr>timers := timers s @ [next_timer s], next_timer := next_timer s + 1,
        timeout := Some (next_timer s)\<rparr>"

definition dispose_poll :: "'n state \<Rightarrow> 'n state" where
  "dispose_poll s =
     (let s0 = log Ev_dispose s
      in if \<not> isDisposed s0
         then (let s1 = s0\<lparr>isDisposed := True\<rparr>
               in case timeout s1 of None \<Rightarrow> s1 | Some t \<Rightarrow> clearTimeout t s1)
         else s0)"

text \<open>The two continuations that \<^verbatim>\<open>poll\<close> defines.\<close>

definition poll_onRequestSuccess :: "'n observer \<Rightarrow> int \<Rightarrow> 'n option \<Rightarrow> 'n act" where
  "poll_onRequestSuccess obs pollInterval payload s =
     (case call_cb dispose_poll (Ev_onNext payload) (map_option (\<lambda>h. h payload) (onNext obs)) s of
        (Some e, s1) \<Rightarrow> (Some e, s1)
      | (None, s1) \<Rightarrow> (None, setTimeout_poll pollInterval s1))"

definition poll_onRequestError :: "'n observer \<Rightarrow> js_error \<Rightarrow> 'n act" where
  "poll_onRequestError obs error s =
     call_cb dispose_poll (Ev_onError error) (map_option (\<lambda>h. h error) (onError obs))
       (dispose_poll s)"

definition force_true :: cache_config where
  "force_true = \<lparr>cfg_force = Some True, cfg_poll = None, cfg_liveConfigId = None,
                 cfg_metadata = None\<rparr>"

text \<open>
  One tick. \<open>request_fn\<close> is the closure \<^verbatim>\<open>request\<close> that \<^verbatim>\<open>create\<close> hands to
  \<^verbatim>\<open>doFetchWithPolling\<close>; it is called with \<^verbatim>\<open>{force: true}\<close> and no uploadables. In
  the \<^verbatim>\<open>default\<close> branch of the switch \<^verbatim>\<open>promise\<close> stays undefined and nothing is
  attached. The reaction that a tick attaches is run by \<open>settle\<close> below, with the
  observer and the interval that \<^verbatim>\<open>doFetchWithPolling\<close> was given.
\<close>

definition poll ::
  "(concrete_batch \<Rightarrow> variables \<Rightarrow> cache_config option \<Rightarrow> uploadable_map option \<Rightarrow> 'n state
      \<Rightarrow> (js_error + 'n response) \<times> 'n state)
     \<Rightarrow> concrete_batch \<Rightarrow> variables \<Rightarrow> 'n act" where
  "poll request_fn operation variables s =
     (case request_fn operation variables (Some force_true) None s of
        (Inl e, s1) \<Rightarrow> (Some e, s1)
      | (Inr requestResponse, s1) \<Rightarrow>
          (let promise =
                 (case requestResponse of
                    KindData d \<Rightarrow> Some (Resolves d)
                  | KindError e \<Rightarrow> Some (Rejects e)
                  | KindPromise p \<Rightarrow> Some p
                  | KindOther kind \<Rightarrow> None)
           in case promise of
                None \<Rightarrow> (None, s1)
              | Some p \<Rightarrow> (None, s1\<lparr>pending := pending s1 @ [ThenPoll p]\<rparr>)))"

text \<open>What a call of \<^verbatim>\<open>requestStream\<close> returns: its own handle of one of two kinds,
  or whatever the subscribe function returned.\<close>

datatype 'h handle = OneShot | Polling | Delegated 'h

definition doFetchWithPolling ::
  "(concrete_batch \<Rightarrow> variables \<Rightarrow> cache_config option \<Rightarrow> uploadable_map option \<Rightarrow> 'n state
      \<Rightarrow> (js_error + 'n response) \<times> 'n state)
     \<Rightarrow> concrete_batch \<Rightarrow> variables \<Rightarrow> 'n observer \<Rightarrow> int \<Rightarrow> 'n state
     \<Rightarrow> (js_error + 'h handle) \<times> 'n state" where
  "doFetchWithPolling request_fn operation variables obs pollInterval s =
     (if \<not> pollInterval > 0
      then (Inl (InvariantViolation
                   ''RelayNetwork: Expected pollInterval to be positive, got `%s`.''
                   [ArgNum pollInterval]), s)
      else
        (case poll request_fn operation variables (s\<lparr>isDisposed := False, timeout := None\<rparr>) of
           (Some e, s1) \<Rightarrow> (Inl e, s1)
         | (None, s1) \<Rightarrow> (Inr Polling, s1)))"

section \<open>requestStream\<close>

text \<open>The observer handed to the subscribe function: \<^verbatim>\<open>onCompleted\<close> and \<^verbatim>\<open>onError\<close> as
  given, and an \<^verbatim>\<open>onNext\<close> that normalizes each payload first.\<close>

record 'n subscription_observer =
  so_onCompleted :: "cb option"
  so_onError :: "(js_error \<Rightarrow> cb) option"
  so_onNext :: "query_payload option \<Rightarrow> 'n act"

type_synonym ('n, 'h) subscribe_function =
  "concrete_batch \<Rightarrow> variables \<Rightarrow> cache_config option \<Rightarrow> 'n subscription_observer \<Rightarrow> 'h"

definition subscription_onNext ::
  "'n modules \<Rightarrow> concrete_batch \<Rightarrow> variables \<Rightarrow> 'n observer \<Rightarrow> query_payload option \<Rightarrow> 'n act" where
  "subscription_onNext I operation variables obs payload s =
     (case normalizePayload I operation variables payload of
        Inl err \<Rightarrow> call_cb id (Ev_onError err) (map_option (\<lambda>h. h err) (onError obs)) s
      | Inr relayPayload \<Rightarrow>
          call_cb id (Ev_onNext (Some relayPayload))
            (map_option (\<lambda>h. h (Some relayPayload)) (onNext obs)) s)"

definition requestStream ::
  "'n modules \<Rightarrow> fetch_function \<Rightarrow> ('n, 'h) subscribe_function option \<Rightarrow> concrete_batch
     \<Rightarrow> variables \<Rightarrow> cache_config option \<Rightarrow> 'n observer \<Rightarrow> 'n state
     \<Rightarrow> (js_error + 'h handle) \<times> 'n state" where
  "requestStream I fetch subscribe operation variables cacheConfig obs s =
     (if q_operation (b_query operation) = ''subscription''
      then
        (case subscribe of
           None \<Rightarrow>
             (Inl (InvariantViolation
                (''The default network layer does not support GraphQL Subscriptions. To use '' @
                 ''Subscriptions, provide a custom network layer.'') []), s)
         | Some sub \<Rightarrow>
             (Inr (Delegated (sub operation variables None
                     \<lparr>so_onCompleted = onCompleted obs, so_onError = onError obs,
                      so_onNext = subscription_onNext I operation variables obs\<rparr>)),
              log (Ev_subscribe operation variables None) s))
      else
        (case (case cacheConfig of None \<Rightarrow> None | Some c \<Rightarrow> cfg_poll c) of
           Some pollInterval \<Rightarrow>
             doFetchWithPolling (request I fetch) operation variables obs pollInterval s
         | None \<Rightarrow>
             (let (requestResponse, s1) =
                    call_fetch fetch operation variables cacheConfig None (s\<lparr>isDisposed := False\<rparr>)
              in case requestResponse of
                   KindData d \<Rightarrow>
                     (Inr OneShot, s1\<lparr>pending := pending s1 @ [ThenSuccess (Resolves d)]\<rparr>)
                 | KindError e \<Rightarrow>
                     (Inr OneShot, s1\<lparr>pending := pending s1 @ [ThenError (Rejects e)]\<rparr>)
                 | KindPromise p \<Rightarrow>
                     (Inr OneShot, s1\<lparr>pending := pending s1 @ [ThenBoth p]\<rparr>)
                 | KindOther kind \<Rightarrow> (Inr OneShot, s1))))"

section \<open>The event loop\<close>

text \<open>
  After \<^verbatim>\<open>requestStream\<close> has returned, three things can happen to the execution,
  in any order and any number of times: the caller calls \<^verbatim>\<open>dispose()\<close> on the
  handle, the host runs the oldest attached reaction (its promise has settled;
  nothing happens while the promise is pending), or the host fires the oldest
  timer that is set.
\<close>

datatype input = Dispose | Settle | TimerFire

text \<open>What the callbacks of an execution close over.\<close>

record 'n closure =
  k_modules :: "'n modules"
  k_fetch :: fetch_function
  k_operation :: concrete_batch
  k_variables :: variables
  k_observer :: "'n observer"
  k_pollInterval :: int

text \<open>The caller's \<^verbatim>\<open>handle.dispose()\<close>. What the handle of a subscribe function does
  when disposed is that function's business and leaves this state as it is.\<close>

definition dispose :: "'h handle \<Rightarrow> 'n state \<Rightarrow> 'n state" where
  "dispose h s =
     (case h of
        OneShot \<Rightarrow> dispose_oneshot s
      | Polling \<Rightarrow> dispose_poll s
      | Delegated d \<Rightarrow> s)"

text \<open>
  Running the oldest reaction. A rejection of the promise that \<^verbatim>\<open>then\<close> derives has
  no handler on the one-shot path (an unhandled rejection); on the polling path
  \<^verbatim>\<open>.catch(rethrow)\<close> schedules a throw.
\<close>

definition settle :: "'n closure \<Rightarrow> 'n state \<Rightarrow> 'n state" where
  "settle K s =
     (case pending s of
        [] \<Rightarrow> s
      | j # js \<Rightarrow>
          (let s0 = s\<lparr>pending := js\<rparr>;
               success = onRequestSuccess (k_modules K) (k_operation K) (k_variables K) (k_observer K);
               failure = onRequestError (k_observer K)
           in case j of
                ThenSuccess p \<Rightarrow>
                  (case react p (Some success) None s0 of
                     None \<Rightarrow> s
                   | Some (None, s1) \<Rightarrow> s1
                   | Some (Some e, s1) \<Rightarrow> log (Ev_unhandledRejection e) s1)
              | ThenError p \<Rightarrow>
                  (case react p (Some failure) None s0 of
                     None \<Rightarrow> s
                   | Some (None, s1) \<Rightarrow> s1
                   | Some (Some e, s1) \<Rightarrow> log (Ev_unhandledRejection e) s1)
              | ThenBoth p \<Rightarrow>
                  (case react p (Some success) (Some failure) s0 of
                     None \<Rightarrow> s
                   | Some (None, s1) \<Rightarrow> s1
                   | Some (Some e, s1) \<Rightarrow> log (Ev_unhandledRejection e) s1)
              | ThenPoll p \<Rightarrow>
                  (case react p (Some (poll_onRequestSuccess (k_observer K) (k_pollInterval K)))
                          (Some (poll_onRequestError (k_observer K))) s0 of
                     None \<Rightarrow> s
                   | Some (None, s1) \<Rightarrow> s1
                   | Some (Some e, s1) \<Rightarrow> log (Ev_rethrow e) s1)))"

text \<open>A timer that fires runs \<^verbatim>\<open>poll\<close>; what \<^verbatim>\<open>poll\<close> throws there is an uncaught
  exception of the timer callback.\<close>

definition fire :: "'n closure \<Rightarrow> 'n state \<Rightarrow> 'n state" where
  "fire K s =
     (case timers s of
        [] \<Rightarrow> s
      | t # ts \<Rightarrow>
          (case poll (request (k_modules K) (k_fetch K)) (k_operation K) (k_variables K)
                  (s\<lparr>timers := ts\<rparr>) of
             (None, s1) \<Rightarrow> s1
           | (Some e, s1) \<Rightarrow> log (Ev_uncaught e) s1))"

definition step :: "'n closure \<Rightarrow> 'h handle \<Rightarrow> input \<Rightarrow> 'n state \<Rightarrow> 'n state" where
  "step K h i s =
     (case i of
        Dispose \<Rightarrow> dispose h s
      | Settle \<Rightarrow> settle K s
      | TimerFire \<Rightarrow> fire K s)"

fun run :: "'n closure \<Rightarrow> 'h handle \<Rightarrow> input list \<Rightarrow> 'n state \<Rightarrow> 'n state" where
  "run K h [] s = s"
| "run K h (i # is) s = run K h is (step K h i s)"

text \<open>The observer's callbacks in a trace, in the order they were called.\<close>

fun is_callback :: "'n event \<Rightarrow> bool" where
  "is_callback (Ev_onNext n) = True"
| "is_callback (Ev_onError e) = True"
| "is_callback Ev_onCompleted = True"
| "is_callback ev = False"

definition callbacks :: "'n event list \<Rightarrow> 'n event list" where
  "callbacks tr = filter is_callback tr"

section \<open>Vocabulary of the statements and concrete inputs\<close>

text \<open>What the message of the error for a payload without data reads, written out.\<close>

definition expected_no_data_message :: "string \<Rightarrow> payload_error list option \<Rightarrow> string" where
  "expected_no_data_message name errors =
     ''No data returned for operation `'' @ name @ ''`, got error(s):'' @ [CHR 0x0A] @
     error_messages errors @ [CHR 0x0A, CHR 0x0A] @
     ''See the error `source` property for more information.''"

definition closure_of ::
  "'n modules \<Rightarrow> fetch_function \<Rightarrow> concrete_batch \<Rightarrow> variables \<Rightarrow> cache_config option
     \<Rightarrow> 'n observer \<Rightarrow> 'n closure" where
  "closure_of I fetch operation variables cacheConfig obs =
     \<lparr>k_modules = I, k_fetch = fetch, k_operation = operation, k_variables = variables,
      k_observer = obs,
      k_pollInterval =
        (case (case cacheConfig of None \<Rightarrow> None | Some c \<Rightarrow> cfg_poll c) of
           None \<Rightarrow> 0
         | Some pollInterval \<Rightarrow> pollInterval)\<rparr>"

text \<open>A normalizer that returns the data as it is, and one that always throws.\<close>

definition ex_modules :: "string modules" where
  "ex_modules =
     \<lparr>ROOT_ID = ''client:root'', normalizeRelayPayload = (\<lambda>sel d errs opts. Inr d)\<rparr>"

definition failing_modules :: "string modules" where
  "failing_modules =
     \<lparr>ROOT_ID = ''client:root'',
      normalizeRelayPayload = (\<lambda>sel d errs opts. Inl (Thrown ''normalizer failed''))\<rparr>"

definition ex_query :: concrete_batch where
  "ex_query = \<lparr>b_name = ''Q'', b_query = \<lparr>q_operation = ''query''\<rparr>\<rparr>"

definition ex_subscription :: concrete_batch where
  "ex_subscription = \<lparr>b_name = ''S'', b_query = \<lparr>q_operation = ''subscription''\<rparr>\<rparr>"

definition ex_variables :: variables where
  "ex_variables = [(''id'', ''1'')]"

definition quiet :: cb where
  "quiet = \<lparr>cb_disposes = False, cb_throws = None\<rparr>"

definition ex_observer :: "string observer" where
  "ex_observer =
     \<lparr>onCompleted = Some quiet, onError = Some (\<lambda>e. quiet), onNext = Some (\<lambda>n. quiet)\<rparr>"

text \<open>An observer whose \<^verbatim>\<open>onNext\<close> disposes the handle it was given.\<close>

definition disposing_observer :: "string observer" where
  "disposing_observer =
     \<lparr>onCompleted = Some quiet, onError = Some (\<lambda>e. quiet),
      onNext = Some (\<lambda>n. \<lparr>cb_disposes = True, cb_throws = None\<rparr>)\<rparr>"

definition ok_payload :: query_payload where
  "ok_payload = \<lparr>p_data = Some ''A'', p_errors = None\<rparr>"

definition boom_payload :: query_payload where
  "boom_payload = \<lparr>p_data = None, p_errors = Some [\<lparr>e_message = ''boom''\<rparr>]\<rparr>"

definition poll_config :: cache_config where
  "poll_config =
     \<lparr>cfg_force = None, cfg_poll = Some 1000, cfg_liveConfigId = Some ''live-1'',
      cfg_metadata = None\<rparr>"

text \<open>Fetch functions that give the same answer on every call.\<close>

definition fetch_always :: "query_payload response \<Rightarrow> fetch_function" where
  "fetch_always r n operation variables cacheConfig uploadables = r"

definition ex_subscribe :: "(string, nat) subscribe_function" where
  "ex_subscribe operation variables cacheConfig observer = 7"

text \<open>A trace without the calls of \<^verbatim>\<open>dispose\<close> and \<^verbatim>\<open>clearTimeout\<close>: what is left are
  the fetch and subscribe calls, the observer's callbacks, the timers that were
  set, and the errors that surfaced.\<close>

fun is_quiet :: "'n event \<Rightarrow> bool" where
  "is_quiet Ev_dispose = True"
| "is_quiet (Ev_clearTimeout t) = True"
| "is_quiet ev = False"

definition activity :: "'n event list \<Rightarrow> 'n event list" where
  "activity tr = filter (\<lambda>ev. \<not> is_quiet ev) tr"

text \<open>The callbacks a one-shot request may deliver, in order: nothing; the result
  and then the completion (each only when the observer has the handler, and the
  completion only when \<^verbatim>\<open>onNext\<close> did not throw); or one error.\<close>

fun oneshot_shape :: "'n event list \<Rightarrow> bool" where
  "oneshot_shape [] = True"
| "oneshot_shape [Ev_onNext n] = True"
| "oneshot_shape [Ev_onNext n, Ev_onCompleted] = True"
| "oneshot_shape [Ev_onCompleted] = True"
| "oneshot_shape [Ev_onError e] = True"
| "oneshot_shape tr = False"

text \<open>The states of a polling execution hold at most one thing that is still to
  happen: one reaction of a tick and no timer, or no reaction and at most one
  timer. The states of a one-shot execution hold at most one reaction of the
  one-shot path and no timer.\<close>

fun is_poll_reaction :: "'n pending \<Rightarrow> bool" where
  "is_poll_reaction (ThenPoll p) = True"
| "is_poll_reaction j = False"

definition poll_inv :: "'n state \<Rightarrow> bool" where
  "poll_inv s =
     (case pending s of
        [] \<Rightarrow> length (timers s) \<le> 1
      | [j] \<Rightarrow> is_poll_reaction j \<and> timers s = []
      | j # k # js \<Rightarrow> False)"

definition oneshot_inv :: "'n state \<Rightarrow> bool" where
  "oneshot_inv s =
     (timers s = [] \<and>
      (case pending s of
         [] \<Rightarrow> True
       | [j] \<Rightarrow> \<not> is_poll_reaction j
       | j # k # js \<Rightarrow> False))"

section \<open>Properties of normalizePayload and request\<close>

lemma sprintf_no_data:
  "sprintf no_data_format [a, b] =
     ''No data returned for operation `'' @ a @ ''`, got error(s):'' @ [CHR 0x0A] @ b @
     [CHR 0x0A, CHR 0x0A] @ ''See the error `source` property for more information.''"
  by (simp add: no_data_format_def)

lemma sublist_join: "m \<in> set ms \<Longrightarrow> sublist m (join sep ms)"
proof (induction sep ms rule: join.induct)
  case (3 sep x y ys)
  show ?case
  proof (cases "m = x")
    case True
    then show ?thesis by simp
  next
    case False
    with 3 have "sublist m (join sep (y # ys))" by simp
    then obtain ps ss where "join sep (y # ys) = ps @ m @ ss" by (auto simp: sublist_def)
    then have "join sep (x # y # ys) = (x @ sep @ ps) @ m @ ss" by simp
    then show ?thesis unfolding sublist_def by blast
  qed
qed simp_all

lemma normalizePayload_no_data:
  "p_data payload = None \<Longrightarrow>
   normalizePayload I operation variables (Some payload) =
     Inl (RelayError \<lparr>re_name = ''RelayNetwork'',
            re_message = expected_no_data_message (b_name operation) (p_errors payload),
            re_source = Some \<lparr>src_errors = p_errors payload, src_operation = operation,
                               src_variables = variables\<rparr>\<rparr>)"
  by (simp add: normalizePayload_def RelayError_create_def sprintf_no_data
      expected_no_data_message_def)

text \<open>\<^verbatim>\<open>request\<close> with the call of the fetch function written out.\<close>

lemma request_unfold:
  "request I fetch operation variables cacheConfig uploadables s =
     (let s1 = log (Ev_fetch operation variables cacheConfig uploadables)
                 (s\<lparr>n_fetch := n_fetch s + 1\<rparr>)
      in case fetch (n_fetch s) operation variables cacheConfig uploadables of
           KindPromise promise \<Rightarrow>
             (Inr (KindPromise (then_promise promise
                     (\<lambda>payload. map_sum id Some (normalizePayload I operation variables payload)))), s1)
         | KindData None \<Rightarrow> (Inr (KindData None), s1)
         | KindData (Some x) \<Rightarrow>
             (case normalizePayload I operation variables (Some x) of
                Inl e \<Rightarrow> (Inl e, s1)
              | Inr n \<Rightarrow> (Inr (KindData (Some n)), s1))
         | KindError e \<Rightarrow> (Inr (KindError e), s1)
         | KindOther kind \<Rightarrow>
             (Inl (InvariantViolation ''RelayNetwork: unsupported response kind `%s`''
                     [ArgStr kind]), s1))"
  by (simp add: request_def call_fetch_def Let_def split: response.splits option.splits)

lemma request_state:
  "snd (request I fetch operation variables cacheConfig uploadables s) =
     log (Ev_fetch operation variables cacheConfig uploadables) (s\<lparr>n_fetch := n_fetch s + 1\<rparr>)"
  by (simp add: request_unfold Let_def split: response.splits option.splits sum.splits)

text \<open>
  C6. When the payload has no data (the field is absent or null), normalizing it
  throws the error named RelayNetwork whose message is the format with the
  operation's name and the server's error messages joined by newlines, or the
  text (No errors) when the payload has no errors list. Every server message is
  part of the message, and the error's source holds the raw errors, the operation
  and the variables. \<^verbatim>\<open>request\<close> throws this error when the fetch function answers
  with such a payload in a data envelope.
\<close>

theorem missing_data_error:
  assumes "p_data payload = None"
  shows "normalizePayload I operation variables (Some payload) =
           Inl (RelayError \<lparr>re_name = ''RelayNetwork'',
                  re_message = expected_no_data_message (b_name operation) (p_errors payload),
                  re_source = Some \<lparr>src_errors = p_errors payload, src_operation = operation,
                                     src_variables = variables\<rparr>\<rparr>)
         \<and> (p_errors payload = None \<longrightarrow>
              sublist ''(No errors)'' (expected_no_data_message (b_name operation) (p_errors payload)))
         \<and> (\<forall>es. p_errors payload = Some es \<longrightarrow>
              sublist (join [CHR 0x0A] (map e_message es))
                (expected_no_data_message (b_name operation) (p_errors payload))
              \<and> (\<forall>e \<in> set es. sublist (e_message e)
                    (expected_no_data_message (b_name operation) (p_errors payload))))
         \<and> (fetch (n_fetch s) operation variables cacheConfig uploadables = KindData (Some payload) \<longrightarrow>
              fst (request I fetch operation variables cacheConfig uploadables s) =
                Inl (RelayError \<lparr>re_name = ''RelayNetwork'',
                  re_message = expected_no_data_message (b_name operation) (p_errors payload),
                  re_source = Some \<lparr>src_errors = p_errors payload, src_operation = operation,
                                     src_variables = variables\<rparr>\<rparr>))"
proof (intro conjI allI impI)
  show "normalizePayload I operation variables (Some payload) =
           Inl (RelayError \<lparr>re_name = ''RelayNetwork'',
                  re_message = expected_no_data_message (b_name operation) (p_errors payload),
                  re_source = Some \<lparr>src_errors = p_errors payload, src_operation = operation,
                                     src_variables = variables\<rparr>\<rparr>)"
    using assms by (rule normalizePayload_no_data)
  show "sublist ''(No errors)'' (expected_no_data_message (b_name operation) (p_errors payload))"
    if "p_errors payload = None"
    using that unfolding expected_no_data_message_def error_messages_def sublist_def
    by (metis append.assoc option.simps(4))
  fix es assume es: "p_errors payload = Some es"
  show j: "sublist (join [CHR 0x0A] (map e_message es))
                (expected_no_data_message (b_name operation) (p_errors payload))"
    using es unfolding expected_no_data_message_def error_messages_def sublist_def
    by (metis append.assoc option.simps(5))
  show "\<forall>e \<in> set es. sublist (e_message e)
                    (expected_no_data_message (b_name operation) (p_errors payload))"
  proof
    fix e assume "e \<in> set es"
    then have "sublist (e_message e) (join [CHR 0x0A] (map e_message es))"
      by (simp add: sublist_join)
    from this j
    show "sublist (e_message e) (expected_no_data_message (b_name operation) (p_errors payload))"
      by (rule sublist_order.order_trans)
  qed
next
  assume "fetch (n_fetch s) operation variables cacheConfig uploadables = KindData (Some payload)"
  then show "fst (request I fetch operation variables cacheConfig uploadables s) =
                Inl (RelayError \<lparr>re_name = ''RelayNetwork'',
                  re_message = expected_no_data_message (b_name operation) (p_errors payload),
                  re_source = Some \<lparr>src_errors = p_errors payload, src_operation = operation,
                                     src_variables = variables\<rparr>\<rparr>)"
    using assms by (simp add: request_unfold Let_def normalizePayload_no_data)
qed

theorem missing_data_error_witness:
  "p_data boom_payload = None
   \<and> normalizePayload ex_modules ex_query ex_variables (Some boom_payload) =
       Inl (RelayError \<lparr>re_name = ''RelayNetwork'',
              re_message = expected_no_data_message ''Q'' (Some [\<lparr>e_message = ''boom''\<rparr>]),
              re_source = Some \<lparr>src_errors = Some [\<lparr>e_message = ''boom''\<rparr>],
                                 src_operation = ex_query, src_variables = ex_variables\<rparr>\<rparr>)
   \<and> sublist ''boom'' (expected_no_data_message ''Q'' (Some [\<lparr>e_message = ''boom''\<rparr>]))
   \<and> fst (request ex_modules (fetch_always (KindData (Some boom_payload))) ex_query ex_variables
            None None fresh) =
       Inl (RelayError \<lparr>re_name = ''RelayNetwork'',
              re_message = expected_no_data_message ''Q'' (Some [\<lparr>e_message = ''boom''\<rparr>]),
              re_source = Some \<lparr>src_errors = Some [\<lparr>e_message = ''boom''\<rparr>],
                                 src_operation = ex_query, src_variables = ex_variables\<rparr>\<rparr>)"
  using missing_data_error [where payload = boom_payload and I = ex_modules
      and operation = ex_query and variables = ex_variables
      and fetch = "fetch_always (KindData (Some boom_payload))" and s = fresh
      and cacheConfig = None and uploadables = None]
  by (simp add: boom_payload_def ex_query_def fetch_always_def)

text \<open>
  C2, as the code has it. \<^verbatim>\<open>request\<close> maps the envelope it gets from the fetch
  function as follows. A data envelope with a payload that normalizes gives a data
  envelope of the normalized payload; with a \<^verbatim>\<open>null\<close> payload it gives a data envelope
  with data \<^verbatim>\<open>null\<close>; when normalizing the payload throws, \<^verbatim>\<open>request\<close> throws that
  error and returns no envelope. An error envelope is returned with the same
  error. A promise envelope gives a promise envelope whose promise is fulfilled
  with the normalized payload when the original is fulfilled and normalizing
  succeeds, is rejected with the normalizer's error when normalizing throws, is
  rejected as the original when the original is rejected, and stays pending while
  the original does. Any other kind throws an invariant violation.
\<close>

theorem request_maps_envelope:
  "fst (request I fetch operation variables cacheConfig uploadables s) =
     (case fetch (n_fetch s) operation variables cacheConfig uploadables of
        KindData d \<Rightarrow>
          (case d of
             None \<Rightarrow> Inr (KindData None)
           | Some p \<Rightarrow>
               (case normalizePayload I operation variables (Some p) of
                  Inl e \<Rightarrow> Inl e
                | Inr n \<Rightarrow> Inr (KindData (Some n))))
      | KindError e \<Rightarrow> Inr (KindError e)
      | KindPromise pr \<Rightarrow>
          Inr (KindPromise
            (case pr of
               Resolves v \<Rightarrow>
                 (case normalizePayload I operation variables v of
                    Inl e \<Rightarrow> Rejects e
                  | Inr n \<Rightarrow> Resolves (Some n))
             | Rejects e \<Rightarrow> Rejects e
             | NeverSettles \<Rightarrow> NeverSettles))
      | KindOther kind \<Rightarrow>
          Inl (InvariantViolation ''RelayNetwork: unsupported response kind `%s`'' [ArgStr kind]))"
  by (simp add: request_unfold Let_def then_promise_def
      split: response.splits option.splits sum.splits promise.splits)

text \<open>
  C2 as stated fails: the fetch function answers with a data envelope whose
  payload has no data and one error, and \<^verbatim>\<open>request\<close> returns no data envelope but
  throws.
\<close>

theorem data_envelope_may_throw:
  "fetch_always (KindData (Some boom_payload)) 0 ex_query ex_variables None None =
     KindData (Some boom_payload)
   \<and> fst (request ex_modules (fetch_always (KindData (Some boom_payload))) ex_query ex_variables
            None None fresh) =
       Inl (RelayError \<lparr>re_name = ''RelayNetwork'',
              re_message = expected_no_data_message ''Q'' (Some [\<lparr>e_message = ''boom''\<rparr>]),
              re_source = Some \<lparr>src_errors = Some [\<lparr>e_message = ''boom''\<rparr>],
                                 src_operation = ex_query, src_variables = ex_variables\<rparr>\<rparr>)"
  by (simp add: request_unfold Let_def fetch_always_def normalizePayload_no_data boom_payload_def
      ex_query_def)

text \<open>
  C10. For a data envelope whose payload is \<^verbatim>\<open>null\<close>, \<^verbatim>\<open>request\<close> returns a data
  envelope with data \<^verbatim>\<open>null\<close> whatever the normalizer is (the result does not depend
  on it, so it holds for a normalizer that throws on every input), and the only
  effect is the call of the fetch function. Whenever \<^verbatim>\<open>request\<close> throws on a data
  envelope, the payload is a present object and the error is what normalizing
  that object throws; for a present payload without a data field that is the
  error for missing data.
\<close>

theorem null_payload_not_normalized:
  "(fetch (n_fetch s) operation variables cacheConfig uploadables = KindData None \<longrightarrow>
      request I fetch operation variables cacheConfig uploadables s =
        (Inr (KindData None),
         log (Ev_fetch operation variables cacheConfig uploadables) (s\<lparr>n_fetch := n_fetch s + 1\<rparr>)))
   \<and> (\<forall>d e. fetch (n_fetch s) operation variables cacheConfig uploadables = KindData d
          \<and> fst (request I fetch operation variables cacheConfig uploadables s) = Inl e \<longrightarrow>
          (\<exists>p. d = Some p \<and> normalizePayload I operation variables (Some p) = Inl e))
   \<and> (\<forall>p. fetch (n_fetch s) operation variables cacheConfig uploadables = KindData (Some p)
          \<and> p_data p = None \<longrightarrow>
          fst (request I fetch operation variables cacheConfig uploadables s) =
            Inl (RelayError \<lparr>re_name = ''RelayNetwork'',
                   re_message = expected_no_data_message (b_name operation) (p_errors p),
                   re_source = Some \<lparr>src_errors = p_errors p, src_operation = operation,
                                      src_variables = variables\<rparr>\<rparr>))"
  by (auto simp add: request_unfold Let_def normalizePayload_no_data
      split: option.splits sum.splits)

text \<open>
  The theorem at a normalizer that always throws and a \<^verbatim>\<open>null\<close> payload, and at a
  present payload without data.
\<close>

theorem null_payload_not_normalized_witness:
  "fetch_always (KindData None) (n_fetch (fresh :: string state)) ex_query ex_variables None None
     = KindData None
   \<and> request failing_modules (fetch_always (KindData None)) ex_query ex_variables None None fresh =
       (Inr (KindData None), log (Ev_fetch ex_query ex_variables None None) (fresh\<lparr>n_fetch := 1\<rparr>))
   \<and> p_data boom_payload = None
   \<and> fst (request ex_modules (fetch_always (KindData (Some boom_payload))) ex_query ex_variables
            None None fresh) =
       Inl (RelayError \<lparr>re_name = ''RelayNetwork'',
              re_message = expected_no_data_message ''Q'' (Some [\<lparr>e_message = ''boom''\<rparr>]),
              re_source = Some \<lparr>src_errors = Some [\<lparr>e_message = ''boom''\<rparr>],
                                 src_operation = ex_query, src_variables = ex_variables\<rparr>\<rparr>)"
  using null_payload_not_normalized [where fetch = "fetch_always (KindData None)"
      and s = "fresh :: string state" and I = failing_modules and operation = ex_query
      and variables = ex_variables and cacheConfig = None and uploadables = None]
    null_payload_not_normalized [where fetch = "fetch_always (KindData (Some boom_payload))"
      and s = "fresh :: string state" and I = ex_modules and operation = ex_query
      and variables = ex_variables and cacheConfig = None and uploadables = None]
  by (simp add: fetch_always_def fresh_def boom_payload_def ex_query_def)

lemma poll_unfold:
  "poll (request I fetch) operation variables s =
     (let s1 = log (Ev_fetch operation variables (Some force_true) None)
                 (s\<lparr>n_fetch := n_fetch s + 1\<rparr>)
      in case fst (request I fetch operation variables (Some force_true) None s) of
           Inl e \<Rightarrow> (Some e, s1)
         | Inr (KindData d) \<Rightarrow> (None, s1\<lparr>pending := pending s1 @ [ThenPoll (Resolves d)]\<rparr>)
         | Inr (KindError e) \<Rightarrow> (None, s1\<lparr>pending := pending s1 @ [ThenPoll (Rejects e)]\<rparr>)
         | Inr (KindPromise p) \<Rightarrow> (None, s1\<lparr>pending := pending s1 @ [ThenPoll p]\<rparr>)
         | Inr (KindOther kind) \<Rightarrow> (None, s1))"
proof -
  obtain r s' where r: "request I fetch operation variables (Some force_true) None s = (r, s')"
    by (cases "request I fetch operation variables (Some force_true) None s")
  with request_state [of I fetch operation variables "Some force_true" None s]
  have s': "s' = log (Ev_fetch operation variables (Some force_true) None)
                 (s\<lparr>n_fetch := n_fetch s + 1\<rparr>)" by simp
  show ?thesis
    by (simp add: poll_def r s' Let_def split: sum.splits response.splits)
qed

lemma poll_trace:
  "trace (snd (poll (request I fetch) operation variables s)) =
     trace s @ [Ev_fetch operation variables (Some force_true) None]"
  by (simp add: poll_unfold Let_def log_def split: sum.splits response.splits)

text \<open>
  C4. When the fetch function answers with a kind that is none of data, error and
  promise, \<^verbatim>\<open>request\<close> throws the invariant violation for an unsupported response
  kind, and so does a poll tick, since it goes through \<^verbatim>\<open>request\<close>: the first tick
  throws out of \<^verbatim>\<open>doFetchWithPolling\<close>, a later tick throws in the timer callback,
  where the error is uncaught.
\<close>

theorem unsupported_kind_fails:
  "(fetch (n_fetch s) operation variables cacheConfig uploadables = KindOther kind \<longrightarrow>
      fst (request I fetch operation variables cacheConfig uploadables s) =
        Inl (InvariantViolation ''RelayNetwork: unsupported response kind `%s`'' [ArgStr kind]))
   \<and> (fetch (n_fetch s) operation variables (Some force_true) None = KindOther kind \<longrightarrow>
        fst (poll (request I fetch) operation variables s) =
          Some (InvariantViolation ''RelayNetwork: unsupported response kind `%s`'' [ArgStr kind]))
   \<and> (fetch (n_fetch s) operation variables (Some force_true) None = KindOther kind
        \<and> 0 < pollInterval \<longrightarrow>
        fst (doFetchWithPolling (request I fetch) operation variables obs pollInterval s
               :: (js_error + 'h handle) \<times> 'n state) =
          Inl (InvariantViolation ''RelayNetwork: unsupported response kind `%s`'' [ArgStr kind]))
   \<and> (\<forall>t ts. timers s = t # ts
        \<and> k_fetch K (n_fetch s) (k_operation K) (k_variables K) (Some force_true) None = KindOther kind
        \<longrightarrow> trace (fire K s) =
              trace s @ [Ev_fetch (k_operation K) (k_variables K) (Some force_true) None,
                         Ev_uncaught (InvariantViolation
                           ''RelayNetwork: unsupported response kind `%s`'' [ArgStr kind])])"
  by (auto simp add: poll_unfold request_unfold Let_def doFetchWithPolling_def fire_def log_def
      split: list.splits)

text \<open>
  The theorem at a fetch function that answers with the kind stream.
\<close>

theorem unsupported_kind_fails_witness:
  "fst (request ex_modules (fetch_always (KindOther ''stream'')) ex_query ex_variables None None
          (fresh :: string state)) =
     Inl (InvariantViolation ''RelayNetwork: unsupported response kind `%s`'' [ArgStr ''stream''])
   \<and> fst (poll (request ex_modules (fetch_always (KindOther ''stream''))) ex_query ex_variables
            (fresh :: string state)) =
       Some (InvariantViolation ''RelayNetwork: unsupported response kind `%s`'' [ArgStr ''stream''])
   \<and> fst (doFetchWithPolling (request ex_modules (fetch_always (KindOther ''stream''))) ex_query
            ex_variables ex_observer 1000 fresh :: (js_error + nat handle) \<times> string state) =
       Inl (InvariantViolation ''RelayNetwork: unsupported response kind `%s`'' [ArgStr ''stream''])
   \<and> trace (fire (closure_of ex_modules (fetch_always (KindOther ''stream'')) ex_query ex_variables
                    (Some poll_config) ex_observer) (fresh\<lparr>timers := [1]\<rparr>)) =
       [Ev_fetch ex_query ex_variables (Some force_true) None,
        Ev_uncaught (InvariantViolation ''RelayNetwork: unsupported response kind `%s`''
                       [ArgStr ''stream''])]"
  using unsupported_kind_fails [where fetch = "fetch_always (KindOther ''stream'')"
      and s = "fresh :: string state" and I = ex_modules and operation = ex_query
      and variables = ex_variables and cacheConfig = None and uploadables = None
      and kind = "''stream''" and pollInterval = 1000 and obs = ex_observer
      and K = "closure_of ex_modules (fetch_always (KindOther ''stream'')) ex_query ex_variables
                    (Some poll_config) ex_observer", where ?'h = nat]
    unsupported_kind_fails [where fetch = "fetch_always (KindOther ''stream'')"
      and s = "fresh\<lparr>timers := [1]\<rparr> :: string state" and I = ex_modules and operation = ex_query
      and variables = ex_variables and cacheConfig = None and uploadables = None
      and kind = "''stream''" and pollInterval = 1000 and obs = ex_observer
      and K = "closure_of ex_modules (fetch_always (KindOther ''stream'')) ex_query ex_variables
                    (Some poll_config) ex_observer", where ?'h = nat]
  by (simp add: fetch_always_def fresh_def closure_of_def)

text \<open>
  C7. For an operation of kind subscription: with no subscribe function,
  \<^verbatim>\<open>requestStream\<close> throws the invariant violation and leaves the state as it was,
  so the fetch function has not been called; with a subscribe function it returns
  what that function returns for the operation, the variables, \<^verbatim>\<open>null\<close> and the
  wrapped observer, and the only effect is the call of the subscribe function:
  the number of fetch calls is unchanged.
\<close>

theorem subscription_needs_subscribe:
  assumes "q_operation (b_query operation) = ''subscription''"
  shows "requestStream I fetch (None :: ('n, 'h) subscribe_function option) operation variables
           cacheConfig obs s =
           (Inl (InvariantViolation
              (''The default network layer does not support GraphQL Subscriptions. To use '' @
               ''Subscriptions, provide a custom network layer.'') []), s)
         \<and> requestStream I fetch (Some sub) operation variables cacheConfig obs s =
             (Inr (Delegated (sub operation variables None
                     \<lparr>so_onCompleted = onCompleted obs, so_onError = onError obs,
                      so_onNext = subscription_onNext I operation variables obs\<rparr>)),
              log (Ev_subscribe operation variables None) s)
         \<and> n_fetch (snd (requestStream I fetch (Some sub) operation variables cacheConfig obs s))
             = n_fetch s
         \<and> trace (snd (requestStream I fetch (Some sub) operation variables cacheConfig obs s))
             = trace s @ [Ev_subscribe operation variables None]"
  using assms by (simp add: requestStream_def log_def)

text \<open>
  The theorem at a subscription operation, without and with a subscribe function.
\<close>

theorem subscription_needs_subscribe_witness:
  "q_operation (b_query ex_subscription) = ''subscription''
   \<and> requestStream ex_modules (fetch_always (KindData (Some ok_payload)))
        (None :: (string, nat) subscribe_function option) ex_subscription ex_variables None
        ex_observer fresh =
       (Inl (InvariantViolation
          (''The default network layer does not support GraphQL Subscriptions. To use '' @
           ''Subscriptions, provide a custom network layer.'') []), fresh)
   \<and> fst (requestStream ex_modules (fetch_always (KindData (Some ok_payload)))
        (Some ex_subscribe) ex_subscription ex_variables None ex_observer fresh) =
       Inr (Delegated 7)
   \<and> trace (snd (requestStream ex_modules (fetch_always (KindData (Some ok_payload)))
        (Some ex_subscribe) ex_subscription ex_variables None ex_observer fresh)) =
       [Ev_subscribe ex_subscription ex_variables None]"
  using subscription_needs_subscribe [where operation = ex_subscription and I = ex_modules
      and fetch = "fetch_always (KindData (Some ok_payload))" and variables = ex_variables
      and cacheConfig = None and obs = ex_observer and s = fresh and sub = ex_subscribe,
      where ?'h = nat]
  by (simp add: ex_subscription_def ex_subscribe_def log_def fresh_def)

lemma requestStream_oneshot:
  assumes "q_operation (b_query operation) \<noteq> ''subscription''"
    and "(case cacheConfig of None \<Rightarrow> None | Some c \<Rightarrow> cfg_poll c) = None"
  shows "requestStream I fetch subscribe operation variables cacheConfig obs s =
     (let s1 = log (Ev_fetch operation variables cacheConfig None)
                 (s\<lparr>isDisposed := False, n_fetch := n_fetch s + 1\<rparr>)
      in (Inr OneShot,
          case fetch (n_fetch s) operation variables cacheConfig None of
            KindData d \<Rightarrow> s1\<lparr>pending := pending s @ [ThenSuccess (Resolves d)]\<rparr>
          | KindError e \<Rightarrow> s1\<lparr>pending := pending s @ [ThenError (Rejects e)]\<rparr>
          | KindPromise p \<Rightarrow> s1\<lparr>pending := pending s @ [ThenBoth p]\<rparr>
          | KindOther kind \<Rightarrow> s1))"
  using assms
  by (simp add: requestStream_def call_fetch_def log_def Let_def split: response.splits)

lemma requestStream_polling:
  assumes "q_operation (b_query operation) \<noteq> ''subscription''"
    and "(case cacheConfig of None \<Rightarrow> None | Some c \<Rightarrow> cfg_poll c) = Some pollInterval"
  shows "requestStream I fetch subscribe operation variables cacheConfig obs s =
           doFetchWithPolling (request I fetch) operation variables obs pollInterval s"
  using assms by (simp add: requestStream_def)

lemma callbacks_append [simp]: "callbacks (xs @ ys) = callbacks xs @ callbacks ys"
  by (simp add: callbacks_def)

lemma callbacks_simps [simp]:
  "callbacks [] = []"
  "callbacks (Ev_fetch a b c d # tr) = callbacks tr"
  "callbacks (Ev_subscribe a b c # tr) = callbacks tr"
  "callbacks (Ev_onNext n # tr) = Ev_onNext n # callbacks tr"
  "callbacks (Ev_onError e # tr) = Ev_onError e # callbacks tr"
  "callbacks (Ev_onCompleted # tr) = Ev_onCompleted # callbacks tr"
  "callbacks (Ev_dispose # tr) = callbacks tr"
  "callbacks (Ev_setTimeout t i # tr) = callbacks tr"
  "callbacks (Ev_clearTimeout t # tr) = callbacks tr"
  "callbacks (Ev_unhandledRejection e # tr) = callbacks tr"
  "callbacks (Ev_rethrow e # tr) = callbacks tr"
  "callbacks (Ev_uncaught e # tr) = callbacks tr"
  by (simp_all add: callbacks_def)

lemma doFetchWithPolling_snd:
  "snd (doFetchWithPolling request_fn operation variables obs pollInterval s) =
     (if 0 < pollInterval
      then snd (poll request_fn operation variables (s\<lparr>isDisposed := False, timeout := None\<rparr>))
      else s)"
  by (simp add: doFetchWithPolling_def split: prod.splits option.splits)

lemma doFetchWithPolling_callbacks:
  "callbacks (trace (snd (doFetchWithPolling (request I fetch) operation variables obs
      pollInterval s))) = callbacks (trace s)"
proof (cases "0 < pollInterval")
  case True
  then show ?thesis
    by (simp add: doFetchWithPolling_snd poll_trace)
next
  case False
  then show ?thesis by (simp add: doFetchWithPolling_def)
qed

text \<open>
  During the call of \<^verbatim>\<open>requestStream\<close>. For an operation that is not a subscription,
  the trace holds the same callbacks when \<^verbatim>\<open>requestStream\<close> returns as when it was called, whatever the fetch
  function answers: no observer callback runs during the call. A synchronous data
  or error envelope is wrapped in a resolved or rejected promise, and its reaction
  is attached and left for the host to run later, on the one-shot path and on the
  polling path.
\<close>

theorem no_synchronous_callbacks:
  assumes "q_operation (b_query operation) \<noteq> ''subscription''"
  shows "callbacks (trace (snd (requestStream I fetch subscribe operation variables cacheConfig
            obs s))) = callbacks (trace s)
    \<and> ((case cacheConfig of None \<Rightarrow> None | Some c \<Rightarrow> cfg_poll c) = None \<longrightarrow>
         (\<forall>d. fetch (n_fetch s) operation variables cacheConfig None = KindData d \<longrightarrow>
            pending (snd (requestStream I fetch subscribe operation variables cacheConfig obs s))
              = pending s @ [ThenSuccess (Resolves d)])
         \<and> (\<forall>e. fetch (n_fetch s) operation variables cacheConfig None = KindError e \<longrightarrow>
            pending (snd (requestStream I fetch subscribe operation variables cacheConfig obs s))
              = pending s @ [ThenError (Rejects e)]))
    \<and> (\<forall>pollInterval. (case cacheConfig of None \<Rightarrow> None | Some c \<Rightarrow> cfg_poll c) = Some pollInterval
          \<and> 0 < pollInterval \<longrightarrow>
         (\<forall>d n. fetch (n_fetch s) operation variables (Some force_true) None = KindData (Some d)
            \<and> normalizePayload I operation variables (Some d) = Inr n \<longrightarrow>
            pending (snd (requestStream I fetch subscribe operation variables cacheConfig obs s))
              = pending s @ [ThenPoll (Resolves (Some n))])
         \<and> (\<forall>e. fetch (n_fetch s) operation variables (Some force_true) None = KindError e \<longrightarrow>
            pending (snd (requestStream I fetch subscribe operation variables cacheConfig obs s))
              = pending s @ [ThenPoll (Rejects e)]))"
proof (intro conjI impI allI)
  show "callbacks (trace (snd (requestStream I fetch subscribe operation variables cacheConfig
            obs s))) = callbacks (trace s)"
  proof (cases "case cacheConfig of None \<Rightarrow> None | Some c \<Rightarrow> cfg_poll c")
    case None
    with assms show ?thesis
      by (simp add: requestStream_oneshot Let_def log_def split: response.splits)
  next
    case (Some i)
    with assms show ?thesis
      by (simp add: requestStream_polling doFetchWithPolling_callbacks)
  qed
next
  fix d
  assume "(case cacheConfig of None \<Rightarrow> None | Some c \<Rightarrow> cfg_poll c) = None"
    and "fetch (n_fetch s) operation variables cacheConfig None = KindData d"
  with assms
  show "pending (snd (requestStream I fetch subscribe operation variables cacheConfig obs s))
              = pending s @ [ThenSuccess (Resolves d)]"
    by (simp add: requestStream_oneshot Let_def log_def)
next
  fix e
  assume "(case cacheConfig of None \<Rightarrow> None | Some c \<Rightarrow> cfg_poll c) = None"
    and "fetch (n_fetch s) operation variables cacheConfig None = KindError e"
  with assms
  show "pending (snd (requestStream I fetch subscribe operation variables cacheConfig obs s))
              = pending s @ [ThenError (Rejects e)]"
    by (simp add: requestStream_oneshot Let_def log_def)
next
  fix pollInterval d n
  assume "(case cacheConfig of None \<Rightarrow> None | Some c \<Rightarrow> cfg_poll c) = Some pollInterval
          \<and> 0 < pollInterval"
    and "fetch (n_fetch s) operation variables (Some force_true) None = KindData (Some d)
            \<and> normalizePayload I operation variables (Some d) = Inr n"
  with assms
  show "pending (snd (requestStream I fetch subscribe operation variables cacheConfig obs s))
              = pending s @ [ThenPoll (Resolves (Some n))]"
    by (simp add: requestStream_polling doFetchWithPolling_def poll_unfold request_unfold
        Let_def log_def)
next
  fix pollInterval e
  assume "(case cacheConfig of None \<Rightarrow> None | Some c \<Rightarrow> cfg_poll c) = Some pollInterval
          \<and> 0 < pollInterval"
    and "fetch (n_fetch s) operation variables (Some force_true) None = KindError e"
  with assms
  show "pending (snd (requestStream I fetch subscribe operation variables cacheConfig obs s))
              = pending s @ [ThenPoll (Rejects e)]"
    by (simp add: requestStream_polling doFetchWithPolling_def poll_unfold request_unfold
        Let_def log_def)
qed

text \<open>
  The statement about the call at a one-shot request answered with data and at a
  polling request answered with an error.
\<close>

theorem no_synchronous_callbacks_witness:
  "q_operation (b_query ex_query) \<noteq> ''subscription''
   \<and> callbacks (trace (snd (requestStream ex_modules (fetch_always (KindData (Some ok_payload)))
        (None :: (string, nat) subscribe_function option) ex_query ex_variables None
        ex_observer fresh))) = []
   \<and> pending (snd (requestStream ex_modules (fetch_always (KindData (Some ok_payload)))
        (None :: (string, nat) subscribe_function option) ex_query ex_variables None
        ex_observer fresh)) = [ThenSuccess (Resolves (Some ok_payload))]
   \<and> callbacks (trace (snd (requestStream ex_modules (fetch_always (KindError (Thrown ''offline'')))
        (None :: (string, nat) subscribe_function option) ex_query ex_variables (Some poll_config)
        ex_observer fresh))) = []
   \<and> pending (snd (requestStream ex_modules (fetch_always (KindError (Thrown ''offline'')))
        (None :: (string, nat) subscribe_function option) ex_query ex_variables (Some poll_config)
        ex_observer fresh)) = [ThenPoll (Rejects (Thrown ''offline''))]"
  using no_synchronous_callbacks [where operation = ex_query and I = ex_modules
      and fetch = "fetch_always (KindData (Some ok_payload))" and variables = ex_variables
      and cacheConfig = None and obs = ex_observer and s = fresh
      and subscribe = "None :: (string, nat) subscribe_function option"]
    no_synchronous_callbacks [where operation = ex_query and I = ex_modules
      and fetch = "fetch_always (KindError (Thrown ''offline''))" and variables = ex_variables
      and cacheConfig = "Some poll_config" and obs = ex_observer and s = fresh
      and subscribe = "None :: (string, nat) subscribe_function option"]
  by (simp add: ex_query_def fetch_always_def fresh_def poll_config_def)

text \<open>
  C3 as stated fails: with a cache configuration that has a poll interval and a
  live configuration id, the tick's configuration is not the original with force
  set; the id and the interval are gone.
\<close>

theorem poll_tick_drops_cache_config:
  "cfg_poll poll_config = Some 1000 \<and> cfg_liveConfigId poll_config = Some ''live-1''
   \<and> trace (snd (requestStream ex_modules (fetch_always (KindData (Some ok_payload)))
        (None :: (string, nat) subscribe_function option) ex_query ex_variables (Some poll_config)
        ex_observer fresh)) = [Ev_fetch ex_query ex_variables (Some force_true) None]
   \<and> force_true \<noteq> poll_config\<lparr>cfg_force := Some True\<rparr>
   \<and> cfg_liveConfigId force_true = None \<and> cfg_poll force_true = None"
  by (simp add: requestStream_def doFetchWithPolling_snd poll_trace poll_config_def ex_query_def
      fresh_def force_true_def)

text \<open>
  C3, as the code has it. Every poll tick calls the fetch function, through
  \<^verbatim>\<open>request\<close>, with the cache configuration that holds \<^verbatim>\<open>force: true\<close> and nothing
  else, and with no uploadables: the first tick inside \<^verbatim>\<open>requestStream\<close> and every
  tick that a timer starts. The cache configuration given to \<^verbatim>\<open>requestStream\<close> is
  not handed to the poller.
\<close>

theorem poll_tick_cache_config:
  "trace (snd (poll (request I fetch) operation variables s)) =
     trace s @ [Ev_fetch operation variables (Some force_true) None]
   \<and> force_true = \<lparr>cfg_force = Some True, cfg_poll = None, cfg_liveConfigId = None,
                    cfg_metadata = None\<rparr>
   \<and> (q_operation (b_query operation) \<noteq> ''subscription'' \<and> cfg_poll c = Some pollInterval
        \<and> 0 < pollInterval \<longrightarrow>
        trace (snd (requestStream I fetch subscribe operation variables (Some c) obs s)) =
          trace s @ [Ev_fetch operation variables (Some force_true) None])
   \<and> (timers s \<noteq> [] \<longrightarrow>
        trace (fire K s) =
          trace s @ [Ev_fetch (k_operation K) (k_variables K) (Some force_true) None] @
          (case fst (poll (request (k_modules K) (k_fetch K)) (k_operation K) (k_variables K)
                      (s\<lparr>timers := tl (timers s)\<rparr>)) of
             None \<Rightarrow> []
           | Some e \<Rightarrow> [Ev_uncaught e]))"
proof (intro conjI impI)
  show "trace (snd (poll (request I fetch) operation variables s)) =
     trace s @ [Ev_fetch operation variables (Some force_true) None]"
    by (rule poll_trace)
  show "force_true = \<lparr>cfg_force = Some True, cfg_poll = None, cfg_liveConfigId = None,
                    cfg_metadata = None\<rparr>"
    by (rule force_true_def)
  show "trace (snd (requestStream I fetch subscribe operation variables (Some c) obs s)) =
          trace s @ [Ev_fetch operation variables (Some force_true) None]"
    if "q_operation (b_query operation) \<noteq> ''subscription'' \<and> cfg_poll c = Some pollInterval
        \<and> 0 < pollInterval"
    using that by (simp add: requestStream_def doFetchWithPolling_snd poll_trace)
  show "trace (fire K s) =
          trace s @ [Ev_fetch (k_operation K) (k_variables K) (Some force_true) None] @
          (case fst (poll (request (k_modules K) (k_fetch K)) (k_operation K) (k_variables K)
                      (s\<lparr>timers := tl (timers s)\<rparr>)) of
             None \<Rightarrow> []
           | Some e \<Rightarrow> [Ev_uncaught e])"
    if ne: "timers s \<noteq> []"
  proof -
    from ne obtain t ts where ts: "timers s = t # ts" by (cases "timers s") auto
    obtain r s1 where r: "poll (request (k_modules K) (k_fetch K)) (k_operation K)
        (k_variables K) (s\<lparr>timers := ts\<rparr>) = (r, s1)"
      by (cases "poll (request (k_modules K) (k_fetch K)) (k_operation K)
        (k_variables K) (s\<lparr>timers := ts\<rparr>)")
    from poll_trace [of "k_modules K" "k_fetch K" "k_operation K" "k_variables K"
        "s\<lparr>timers := ts\<rparr>"] r
    have "trace s1 = trace s @ [Ev_fetch (k_operation K) (k_variables K) (Some force_true) None]"
      by simp
    then show ?thesis
      by (simp add: fire_def ts r log_def split: option.splits)
  qed
qed

text \<open>
  The theorem at a polling request: the first tick and a tick started by a timer.
\<close>

theorem poll_tick_cache_config_witness:
  "q_operation (b_query ex_query) \<noteq> ''subscription'' \<and> cfg_poll poll_config = Some 1000
   \<and> trace (snd (requestStream ex_modules (fetch_always (KindData (Some ok_payload)))
        (None :: (string, nat) subscribe_function option) ex_query ex_variables (Some poll_config)
        ex_observer fresh)) = [Ev_fetch ex_query ex_variables (Some force_true) None]
   \<and> trace (fire (closure_of ex_modules (fetch_always (KindData (Some ok_payload))) ex_query
                    ex_variables (Some poll_config) ex_observer) (fresh\<lparr>timers := [1]\<rparr>)) =
       [Ev_fetch ex_query ex_variables (Some force_true) None]"
  using poll_tick_cache_config [where operation = ex_query and I = ex_modules
      and fetch = "fetch_always (KindData (Some ok_payload))" and variables = ex_variables
      and c = poll_config and obs = ex_observer and s = fresh and pollInterval = 1000
      and subscribe = "None :: (string, nat) subscribe_function option"]
    poll_tick_cache_config [where operation = ex_query and I = ex_modules
      and fetch = "fetch_always (KindData (Some ok_payload))" and variables = ex_variables
      and c = poll_config and obs = ex_observer and pollInterval = 1000
      and subscribe = "None :: (string, nat) subscribe_function option"
      and s = "fresh\<lparr>timers := [1]\<rparr>"
      and K = "closure_of ex_modules (fetch_always (KindData (Some ok_payload))) ex_query
                    ex_variables (Some poll_config) ex_observer"]
  by (simp add: ex_query_def fetch_always_def fresh_def poll_config_def closure_of_def
      poll_unfold request_unfold Let_def ok_payload_def normalizePayload_def ex_modules_def)

section \<open>Properties of the event loop\<close>

lemma activity_append [simp]: "activity (xs @ ys) = activity xs @ activity ys"
  by (simp add: activity_def)

lemma activity_simps [simp]:
  "activity [] = []"
  "activity (Ev_fetch a b c d # tr) = Ev_fetch a b c d # activity tr"
  "activity (Ev_subscribe a b c # tr) = Ev_subscribe a b c # activity tr"
  "activity (Ev_onNext n # tr) = Ev_onNext n # activity tr"
  "activity (Ev_onError e # tr) = Ev_onError e # activity tr"
  "activity (Ev_onCompleted # tr) = Ev_onCompleted # activity tr"
  "activity (Ev_dispose # tr) = activity tr"
  "activity (Ev_setTimeout t i # tr) = Ev_setTimeout t i # activity tr"
  "activity (Ev_clearTimeout t # tr) = activity tr"
  "activity (Ev_unhandledRejection e # tr) = Ev_unhandledRejection e # activity tr"
  "activity (Ev_rethrow e # tr) = Ev_rethrow e # activity tr"
  "activity (Ev_uncaught e # tr) = Ev_uncaught e # activity tr"
  by (simp_all add: activity_def)

lemma run_append: "run K h (xs @ ys) s = run K h ys (run K h xs s)"
  by (induction xs arbitrary: s) simp_all

text \<open>What \<^verbatim>\<open>dispose\<close> of a poller changes.\<close>

lemma dispose_poll_fields:
  "pending (dispose_poll s) = pending s"
  "isDisposed (dispose_poll s)"
  "n_fetch (dispose_poll s) = n_fetch s"
  "activity (trace (dispose_poll s)) = activity (trace s)"
  "callbacks (trace (dispose_poll s)) = callbacks (trace s)"
  "length (timers (dispose_poll s)) \<le> length (timers s)"
  by (simp_all add: dispose_poll_def clearTimeout_def log_def Let_def split: option.splits)

lemma dispose_poll_timers: "timers s = [] \<Longrightarrow> timers (dispose_poll s) = []"
  using dispose_poll_fields(6) [of s] by simp

lemma dispose_oneshot_fields:
  "pending (dispose_oneshot s) = pending s"
  "isDisposed (dispose_oneshot s)"
  "n_fetch (dispose_oneshot s) = n_fetch s"
  "timers (dispose_oneshot s) = timers s"
  "activity (trace (dispose_oneshot s)) = activity (trace s)"
  "callbacks (trace (dispose_oneshot s)) = callbacks (trace s)"
  by (simp_all add: dispose_oneshot_def log_def)

text \<open>Nothing is left to happen: every further input leaves all but the calls of
  \<^verbatim>\<open>dispose\<close> as it is.\<close>

lemma step_quiescent:
  assumes "pending s = []" "timers s = []"
  shows "pending (step K h i s) = [] \<and> timers (step K h i s) = []
         \<and> activity (trace (step K h i s)) = activity (trace s)
         \<and> callbacks (trace (step K h i s)) = callbacks (trace s)
         \<and> n_fetch (step K h i s) = n_fetch s
         \<and> (isDisposed s \<longrightarrow> isDisposed (step K h i s))"
  using assms
  by (cases i; cases h)
     (simp_all add: step_def dispose_def settle_def fire_def dispose_poll_fields
        dispose_poll_timers dispose_oneshot_fields)

lemma run_quiescent:
  assumes "pending s = []" "timers s = []"
  shows "pending (run K h is s) = [] \<and> timers (run K h is s) = []
         \<and> activity (trace (run K h is s)) = activity (trace s)
         \<and> callbacks (trace (run K h is s)) = callbacks (trace s)
         \<and> n_fetch (run K h is s) = n_fetch s
         \<and> (isDisposed s \<longrightarrow> isDisposed (run K h is s))"
  using assms
proof (induction "is" arbitrary: s)
  case Nil
  then show ?case by simp
next
  case (Cons i "is")
  from step_quiescent [OF Cons.prems, of K h i]
  have st: "pending (step K h i s) = []" "timers (step K h i s) = []"
    and eq: "activity (trace (step K h i s)) = activity (trace s)"
      "callbacks (trace (step K h i s)) = callbacks (trace s)"
      "n_fetch (step K h i s) = n_fetch s"
      "isDisposed s \<longrightarrow> isDisposed (step K h i s)"
    by simp_all
  from Cons.IH [OF st] eq show ?case by simp
qed

lemma log_fields [simp]:
  "trace (log ev s) = trace s @ [ev]"
  "pending (log ev s) = pending s"
  "timers (log ev s) = timers s"
  "isDisposed (log ev s) = isDisposed s"
  "n_fetch (log ev s) = n_fetch s"
  "timeout (log ev s) = timeout s"
  "next_timer (log ev s) = next_timer s"
  by (simp_all add: log_def)

lemma activity_single: "\<not> is_quiet ev \<Longrightarrow> activity [ev] = [ev]"
  by (simp add: activity_def)

lemma call_cb_poll:
  assumes "call_cb dispose_poll ev handler s = (r, s')" and "\<not> is_quiet ev"
  shows "pending s' = pending s" "n_fetch s' = n_fetch s"
    "length (timers s') \<le> length (timers s)"
    "isDisposed s \<Longrightarrow> isDisposed s'"
    "activity (trace s') = activity (trace s) @ (case handler of None \<Rightarrow> [] | Some b \<Rightarrow> [ev])"
    "r = (case handler of None \<Rightarrow> None | Some b \<Rightarrow> cb_throws b)"
  using assms dispose_poll_fields(6) [of "log ev s"]
  by (auto simp add: call_cb_def dispose_poll_fields(1-5) activity_single
      split: option.splits if_splits)

lemma call_cb_oneshot:
  assumes "call_cb dispose_oneshot ev handler s = (r, s')" and "\<not> is_quiet ev"
  shows "pending s' = pending s" "n_fetch s' = n_fetch s"
    "timers s' = timers s"
    "isDisposed s \<Longrightarrow> isDisposed s'"
    "activity (trace s') = activity (trace s) @ (case handler of None \<Rightarrow> [] | Some b \<Rightarrow> [ev])"
    "r = (case handler of None \<Rightarrow> None | Some b \<Rightarrow> cb_throws b)"
  using assms
  by (auto simp add: call_cb_def dispose_oneshot_fields activity_single
      split: option.splits if_splits)

lemma poll_onRequestError_fields:
  assumes "poll_onRequestError obs e s = (r, s')"
  shows "pending s' = pending s" "n_fetch s' = n_fetch s"
    "length (timers s') \<le> length (timers s)"
    "isDisposed s'"
    "activity (trace s') =
       activity (trace s) @ (case onError obs of None \<Rightarrow> [] | Some h \<Rightarrow> [Ev_onError e])"
    "r = (case onError obs of None \<Rightarrow> None | Some h \<Rightarrow> cb_throws (h e))"
proof -
  from assms have c: "call_cb dispose_poll (Ev_onError e) (map_option (\<lambda>h. h e) (onError obs))
      (dispose_poll s) = (r, s')"
    by (simp add: poll_onRequestError_def)
  have q: "\<not> is_quiet (Ev_onError e :: 'a event)" by simp
  note f = call_cb_poll [OF c q]
  show "pending s' = pending s" using f(1) by (simp add: dispose_poll_fields)
  show "n_fetch s' = n_fetch s" using f(2) by (simp add: dispose_poll_fields)
  show "length (timers s') \<le> length (timers s)"
    using f(3) dispose_poll_fields(6) [of s] by simp
  show "isDisposed s'" using f(4) by (simp add: dispose_poll_fields)
  show "activity (trace s') =
       activity (trace s) @ (case onError obs of None \<Rightarrow> [] | Some h \<Rightarrow> [Ev_onError e])"
    using f(5) by (simp add: dispose_poll_fields split: option.splits)
  show "r = (case onError obs of None \<Rightarrow> None | Some h \<Rightarrow> cb_throws (h e))"
    using f(6) by (simp split: option.splits)
qed

lemma poll_onRequestSuccess_inv:
  assumes "poll_onRequestSuccess obs i payload s = (r, s')"
    and "pending s = []" "timers s = []"
  shows "pending s' = []" "length (timers s') \<le> 1"
proof -
  obtain r1 s1 where c: "call_cb dispose_poll (Ev_onNext payload)
      (map_option (\<lambda>h. h payload) (onNext obs)) s = (r1, s1)"
    by (cases "call_cb dispose_poll (Ev_onNext payload)
      (map_option (\<lambda>h. h payload) (onNext obs)) s")
  have q: "\<not> is_quiet (Ev_onNext payload)" by simp
  note f = call_cb_poll [OF c q]
  from f(3) assms(3) have t: "timers s1 = []" by simp
  from assms(1) c have "s' = s1 \<or> s' = setTimeout_poll i s1"
    by (auto simp add: poll_onRequestSuccess_def split: option.splits)
  then show "pending s' = []" "length (timers s') \<le> 1"
    using f(1) t assms(2) by (auto simp add: setTimeout_poll_def log_def)
qed

lemma poll_inv_log [simp]: "poll_inv (log ev s) = poll_inv s"
  by (simp add: poll_inv_def split: list.splits)

lemma settle_poll_inv:
  assumes "poll_inv s"
  shows "poll_inv (settle K s)"
proof (cases "pending s")
  case Nil
  then show ?thesis using assms by (simp add: settle_def)
next
  case (Cons j js)
  with assms obtain p where j: "j = ThenPoll p" and js: "js = []" and t: "timers s = []"
    by (cases j; cases js) (simp_all add: poll_inv_def)
  show ?thesis
  proof (cases p)
    case NeverSettles
    then show ?thesis using assms Cons j by (simp add: settle_def react_def)
  next
    case (Resolves v)
    obtain r s1 where h: "poll_onRequestSuccess (k_observer K) (k_pollInterval K) v
        (s\<lparr>pending := []\<rparr>) = (r, s1)"
      by (cases "poll_onRequestSuccess (k_observer K) (k_pollInterval K) v (s\<lparr>pending := []\<rparr>)")
    from poll_onRequestSuccess_inv [OF h] t
    have "pending s1 = []" "length (timers s1) \<le> 1" by simp_all
    then show ?thesis using Cons j js Resolves h
      by (simp add: settle_def react_def poll_inv_def log_def split: option.splits)
  next
    case (Rejects e)
    obtain r s1 where h: "poll_onRequestError (k_observer K) e (s\<lparr>pending := []\<rparr>) = (r, s1)"
      by (cases "poll_onRequestError (k_observer K) e (s\<lparr>pending := []\<rparr>)")
    from poll_onRequestError_fields(1,3) [OF h] t
    have "pending s1 = []" "length (timers s1) \<le> 1" by simp_all
    then show ?thesis using Cons j js Rejects h
      by (simp add: settle_def react_def poll_inv_def log_def split: option.splits)
  qed
qed

lemma poll_pending:
  "pending (snd (poll (request I fetch) operation variables s)) = pending s
   \<or> (\<exists>p. pending (snd (poll (request I fetch) operation variables s)) = pending s @ [ThenPoll p])"
  by (simp add: poll_unfold Let_def log_def split: sum.splits response.splits)

lemma poll_timers:
  "timers (snd (poll (request I fetch) operation variables s)) = timers s"
  by (simp add: poll_unfold Let_def log_def split: sum.splits response.splits)

lemma poll_clean_inv:
  assumes "pending s = []" "timers s = []"
  shows "poll_inv (snd (poll (request I fetch) operation variables s))"
  using poll_pending [of I fetch operation variables s]
    poll_timers [of I fetch operation variables s] assms
  by (auto simp add: poll_inv_def)

lemma fire_poll_inv:
  assumes "poll_inv s"
  shows "poll_inv (fire K s)"
proof (cases "timers s")
  case Nil
  then show ?thesis using assms by (simp add: fire_def)
next
  case (Cons t ts)
  with assms have p: "pending s = []" and ts: "ts = []"
    by (auto simp add: poll_inv_def split: list.splits)
  obtain r s1 where r: "poll (request (k_modules K) (k_fetch K)) (k_operation K) (k_variables K)
      (s\<lparr>timers := []\<rparr>) = (r, s1)"
    by (cases "poll (request (k_modules K) (k_fetch K)) (k_operation K) (k_variables K)
      (s\<lparr>timers := []\<rparr>)")
  have "poll_inv (snd (poll (request (k_modules K) (k_fetch K)) (k_operation K) (k_variables K)
      (s\<lparr>timers := []\<rparr>)))"
    by (rule poll_clean_inv) (simp_all add: p)
  with r have "poll_inv s1" by simp
  then show ?thesis using Cons ts r
    by (simp add: fire_def split: option.splits)
qed

lemma dispose_poll_inv:
  assumes "poll_inv s"
  shows "poll_inv (dispose_poll s)"
  using assms dispose_poll_fields(6) [of s]
  by (auto simp add: poll_inv_def dispose_poll_fields(1-5) split: list.splits)

lemma step_poll_inv: "poll_inv s \<Longrightarrow> poll_inv (step K Polling i s)"
  by (cases i) (simp_all add: step_def dispose_def dispose_poll_inv settle_poll_inv fire_poll_inv)

lemma run_poll_inv: "poll_inv s \<Longrightarrow> poll_inv (run K Polling is s)"
  by (induction "is" arbitrary: s) (simp_all add: step_poll_inv)

lemma requestStream_poll_inv:
  fixes subscribe :: "('n, 'h) subscribe_function option"
  assumes "pending s = []" "timers s = []"
    and "requestStream I fetch subscribe operation variables cacheConfig obs s = (Inr Polling, s0)"
  shows "poll_inv s0"
proof -
  from assms(3) have
    "\<exists>i. doFetchWithPolling (request I fetch) operation variables obs i s =
       (Inr (Polling :: 'h handle), s0)"
    by (auto simp add: requestStream_def call_fetch_def Let_def
        split: if_splits option.splits response.splits)
  then obtain i where
    d: "doFetchWithPolling (request I fetch) operation variables obs i s =
         (Inr (Polling :: 'h handle), s0)" ..
  then have "0 < i"
    by (auto simp add: doFetchWithPolling_def split: if_splits)
  from d have "snd (doFetchWithPolling (request I fetch) operation variables obs i s
      :: (js_error + 'h handle) \<times> 'n state) = s0"
    by simp
  with \<open>0 < i\<close> have "s0 = snd (poll (request I fetch) operation variables
      (s\<lparr>isDisposed := False, timeout := None\<rparr>))"
    by (simp add: doFetchWithPolling_snd)
  then show ?thesis using assms(1,2) by (simp add: poll_clean_inv)
qed

text \<open>While a reaction waits and no timer is set, calls of \<^verbatim>\<open>dispose\<close> and timer
  inputs change nothing but the disposed flag.\<close>

lemma step_waiting:
  assumes "timers s = []" and "i \<noteq> Settle"
  shows "pending (step K h i s) = pending s \<and> timers (step K h i s) = []
         \<and> activity (trace (step K h i s)) = activity (trace s)
         \<and> callbacks (trace (step K h i s)) = callbacks (trace s)
         \<and> n_fetch (step K h i s) = n_fetch s
         \<and> (isDisposed s \<longrightarrow> isDisposed (step K h i s))
         \<and> (i = Dispose \<and> (h = OneShot \<or> h = Polling) \<longrightarrow> isDisposed (step K h i s))"
  using assms
  by (cases i; cases h)
     (simp_all add: step_def dispose_def fire_def dispose_poll_fields(1-5)
        dispose_poll_timers dispose_oneshot_fields)

lemma run_waiting:
  assumes "timers s = []" and "Settle \<notin> set is"
  shows "pending (run K h is s) = pending s \<and> timers (run K h is s) = []
         \<and> activity (trace (run K h is s)) = activity (trace s)
         \<and> callbacks (trace (run K h is s)) = callbacks (trace s)
         \<and> n_fetch (run K h is s) = n_fetch s
         \<and> (isDisposed s \<longrightarrow> isDisposed (run K h is s))"
  using assms
proof (induction "is" arbitrary: s)
  case Nil
  then show ?case by simp
next
  case (Cons i "is")
  from Cons.prems have i: "i \<noteq> Settle" and rest: "Settle \<notin> set is" by auto
  note st = step_waiting [OF Cons.prems(1) i, of K h]
  from st have t: "timers (step K h i s) = []" by simp
  from Cons.IH [OF t rest] st show ?case by simp
qed

lemma settle_poll_rejected:
  assumes "pending s = [ThenPoll (Rejects e)]" and "timers s = []"
    and "onError (k_observer K) = Some h"
  shows "pending (settle K s) = []" "timers (settle K s) = []" "isDisposed (settle K s)"
    "n_fetch (settle K s) = n_fetch s"
    "activity (trace (settle K s)) =
       activity (trace s) @ [Ev_onError e] @
       (case cb_throws (h e) of None \<Rightarrow> [] | Some x \<Rightarrow> [Ev_rethrow x])"
proof -
  obtain r s1 where h: "poll_onRequestError (k_observer K) e (s\<lparr>pending := []\<rparr>) = (r, s1)"
    by (cases "poll_onRequestError (k_observer K) e (s\<lparr>pending := []\<rparr>)")
  note f = poll_onRequestError_fields [OF h]
  have s: "settle K s = (case r of None \<Rightarrow> s1 | Some x \<Rightarrow> log (Ev_rethrow x) s1)"
    using assms(1) h by (simp add: settle_def react_def split: option.splits)
  show "pending (settle K s) = []" using f(1) by (simp add: s split: option.splits)
  show "timers (settle K s) = []" using f(3) assms(2) by (simp add: s split: option.splits)
  show "isDisposed (settle K s)" using f(4) by (simp add: s split: option.splits)
  show "n_fetch (settle K s) = n_fetch s" using f(2) by (simp add: s split: option.splits)
  show "activity (trace (settle K s)) =
       activity (trace s) @ [Ev_onError e] @
       (case cb_throws (h e) of None \<Rightarrow> [] | Some x \<Rightarrow> [Ev_rethrow x])"
    using f(5,6) assms(3) by (simp add: s split: option.splits)
qed

lemma poll_error_link:
  assumes "fetch (n_fetch s) operation variables (Some force_true) None = KindError e
           \<or> fetch (n_fetch s) operation variables (Some force_true) None = KindPromise (Rejects e)"
  shows "poll (request I fetch) operation variables s =
           (None, (log (Ev_fetch operation variables (Some force_true) None)
                     (s\<lparr>n_fetch := n_fetch s + 1\<rparr>))
                  \<lparr>pending := pending s @ [ThenPoll (Rejects e)]\<rparr>)"
  using assms
  by (auto simp add: poll_unfold request_unfold Let_def then_promise_def)

text \<open>
  C5. Take any polling execution started by \<^verbatim>\<open>requestStream\<close> and any moment of it
  at which the reaction of a tick waits on a promise that is rejected with \<open>e\<close>;
  this is what a tick attaches when its fetch answers with an error envelope or
  with a promise that is rejected (last part of the statement). Whatever the
  caller does before the reaction runs and whatever happens after it, the
  observer's \<^verbatim>\<open>onError\<close> is called exactly once, with \<open>e\<close>, and nothing else
  happens from then on but calls of \<^verbatim>\<open>dispose\<close>: no further fetch, no timer, no
  other callback (only the scheduled rethrow when \<^verbatim>\<open>onError\<close> itself throws). The
  handle ends disposed, with no timer set and no reaction attached.
\<close>

theorem poll_error_stops:
  fixes subscribe :: "('n, 'h) subscribe_function option"
  assumes "pending s = []" and "timers s = []"
    and "requestStream I fetch subscribe operation variables cacheConfig obs s = (Inr Polling, s0)"
    and "onError obs = Some h"
    and "pending (run (closure_of I fetch operation variables cacheConfig obs)
                   (Polling :: 'h handle) hist s0) = [ThenPoll (Rejects e)]"
    and "Settle \<notin> set pre"
  shows "activity (trace (run (closure_of I fetch operation variables cacheConfig obs)
                     (Polling :: 'h handle) (hist @ pre @ Settle # post) s0)) =
           activity (trace (run (closure_of I fetch operation variables cacheConfig obs)
                     (Polling :: 'h handle) hist s0))
           @ [Ev_onError e] @ (case cb_throws (h e) of None \<Rightarrow> [] | Some x \<Rightarrow> [Ev_rethrow x])
         \<and> isDisposed (run (closure_of I fetch operation variables cacheConfig obs)
                     (Polling :: 'h handle) (hist @ pre @ Settle # post) s0)
         \<and> timers (run (closure_of I fetch operation variables cacheConfig obs)
                     (Polling :: 'h handle) (hist @ pre @ Settle # post) s0) = []
         \<and> pending (run (closure_of I fetch operation variables cacheConfig obs)
                     (Polling :: 'h handle) (hist @ pre @ Settle # post) s0) = []
         \<and> n_fetch (run (closure_of I fetch operation variables cacheConfig obs)
                     (Polling :: 'h handle) (hist @ pre @ Settle # post) s0) =
             n_fetch (run (closure_of I fetch operation variables cacheConfig obs)
                     (Polling :: 'h handle) hist s0)
         \<and> (\<forall>s'. fetch (n_fetch s') operation variables (Some force_true) None = KindError e
                 \<or> fetch (n_fetch s') operation variables (Some force_true) None
                     = KindPromise (Rejects e) \<longrightarrow>
               pending (snd (poll (request I fetch) operation variables s')) =
                 pending s' @ [ThenPoll (Rejects e)])"
proof -
  define K where "K = closure_of I fetch operation variables cacheConfig obs"
  define st where "st = run K (Polling :: 'h handle) hist s0"
  define s1 where "s1 = run K (Polling :: 'h handle) pre st"
  define s2 where "s2 = settle K s1"
  have obs: "onError (k_observer K) = Some h"
    using assms(4) by (simp add: K_def closure_of_def)
  have "poll_inv s0" using assms(1-3) by (rule requestStream_poll_inv)
  then have "poll_inv st" unfolding st_def by (rule run_poll_inv)
  moreover have p: "pending st = [ThenPoll (Rejects e)]"
    using assms(5) by (simp add: st_def K_def)
  ultimately have t: "timers st = []" by (simp add: poll_inv_def)
  note w = run_waiting [OF t assms(6), of K "Polling :: 'h handle"]
  from w p have p1: "pending s1 = [ThenPoll (Rejects e)]" and t1: "timers s1 = []"
    and a1: "activity (trace s1) = activity (trace st)" and n1: "n_fetch s1 = n_fetch st"
    by (simp_all add: s1_def)
  note e = settle_poll_rejected [OF p1 t1 obs]
  from e have p2: "pending s2 = []" and t2: "timers s2 = []" by (simp_all add: s2_def)
  note q = run_quiescent [OF p2 t2, of K "Polling :: 'h handle" post]
  have r: "run K (Polling :: 'h handle) (hist @ pre @ Settle # post) s0 =
           run K (Polling :: 'h handle) post s2"
    by (simp add: run_append st_def s1_def s2_def step_def)
  have "activity (trace (run K (Polling :: 'h handle) post s2)) =
          activity (trace st) @ [Ev_onError e] @
          (case cb_throws (h e) of None \<Rightarrow> [] | Some x \<Rightarrow> [Ev_rethrow x])"
    using q e(5) a1 by (simp add: s2_def)
  moreover have "isDisposed (run K (Polling :: 'h handle) post s2)"
    using q e(3) by (simp add: s2_def)
  moreover have "timers (run K (Polling :: 'h handle) post s2) = []"
    and "pending (run K (Polling :: 'h handle) post s2) = []"
    using q by simp_all
  moreover have "n_fetch (run K (Polling :: 'h handle) post s2) = n_fetch st"
    using q e(4) n1 by (simp add: s2_def)
  moreover have "\<forall>s'. fetch (n_fetch s') operation variables (Some force_true) None = KindError e
                 \<or> fetch (n_fetch s') operation variables (Some force_true) None
                     = KindPromise (Rejects e) \<longrightarrow>
               pending (snd (poll (request I fetch) operation variables s')) =
                 pending s' @ [ThenPoll (Rejects e)]"
    by (auto simp add: poll_error_link)
  ultimately show ?thesis
    unfolding r [unfolded K_def st_def] K_def st_def by simp
qed

lemma callbacks_single: "is_callback ev \<Longrightarrow> callbacks [ev] = [ev]"
  by (simp add: callbacks_def)

lemma call_cb_oneshot_callbacks:
  assumes "call_cb dispose_oneshot ev handler s = (r, s')" and "is_callback ev"
  shows "callbacks (trace s') = callbacks (trace s) @ (case handler of None \<Rightarrow> [] | Some b \<Rightarrow> [ev])"
  using assms
  by (auto simp add: call_cb_def dispose_oneshot_fields callbacks_single
      split: option.splits if_splits)

lemma onRequestError_fields:
  assumes "onRequestError obs e s = (r, s')"
  shows "pending s' = pending s" "timers s' = timers s"
    "isDisposed s \<Longrightarrow> callbacks (trace s') = callbacks (trace s)"
    "\<exists>cbs. callbacks (trace s') = callbacks (trace s) @ cbs \<and> oneshot_shape cbs"
proof -
  have q: "\<not> is_quiet (Ev_onError e :: 'a event)" and c: "is_callback (Ev_onError e :: 'a event)"
    by simp_all
  show "pending s' = pending s" "timers s' = timers s"
    using assms call_cb_oneshot(1,3) [OF _ q]
    by (auto simp add: onRequestError_def split: if_splits)
  show "isDisposed s \<Longrightarrow> callbacks (trace s') = callbacks (trace s)"
    using assms by (simp add: onRequestError_def)
  show "\<exists>cbs. callbacks (trace s') = callbacks (trace s) @ cbs \<and> oneshot_shape cbs"
  proof (cases "isDisposed s")
    case True
    with assms show ?thesis by (simp add: onRequestError_def)
  next
    case False
    with assms have "call_cb dispose_oneshot (Ev_onError e) (map_option (\<lambda>h. h e) (onError obs)) s
        = (r, s')" by (simp add: onRequestError_def)
    from call_cb_oneshot_callbacks [OF this c] show ?thesis
      by (cases "onError obs") simp_all
  qed
qed

lemma onRequestSuccess_fields:
  assumes "onRequestSuccess I operation variables obs payload s = (r, s')"
  shows "pending s' = pending s" "timers s' = timers s"
    "isDisposed s \<Longrightarrow> callbacks (trace s') = callbacks (trace s)"
    "\<exists>cbs. callbacks (trace s') = callbacks (trace s) @ cbs \<and> oneshot_shape cbs"
proof -
  show "isDisposed s \<Longrightarrow> callbacks (trace s') = callbacks (trace s)"
    using assms by (simp add: onRequestSuccess_def)
  have "pending s' = pending s \<and> timers s' = timers s
        \<and> (\<exists>cbs. callbacks (trace s') = callbacks (trace s) @ cbs \<and> oneshot_shape cbs)"
  proof (cases "isDisposed s")
    case True
    with assms show ?thesis by (simp add: onRequestSuccess_def)
  next
    case False
    show ?thesis
    proof (cases "normalizePayload I operation variables payload")
      case (Inl err)
      have q: "\<not> is_quiet (Ev_onError err :: 'a event)"
        and c: "is_callback (Ev_onError err :: 'a event)" by simp_all
      from assms False Inl
      have cb: "call_cb dispose_oneshot (Ev_onError err) (map_option (\<lambda>h. h err) (onError obs)) s
          = (r, s')" by (simp add: onRequestSuccess_def)
      from call_cb_oneshot(1,3) [OF cb q] call_cb_oneshot_callbacks [OF cb c]
      show ?thesis by (cases "onError obs") simp_all
    next
      case (Inr n)
      obtain r1 s1 where cb1: "call_cb dispose_oneshot (Ev_onNext (Some n))
          (map_option (\<lambda>h. h (Some n)) (onNext obs)) s = (r1, s1)"
        by (cases "call_cb dispose_oneshot (Ev_onNext (Some n))
          (map_option (\<lambda>h. h (Some n)) (onNext obs)) s")
      have q1: "\<not> is_quiet (Ev_onNext (Some n))" and c1: "is_callback (Ev_onNext (Some n))"
        by simp_all
      note f1 = call_cb_oneshot(1,3,6) [OF cb1 q1] call_cb_oneshot_callbacks [OF cb1 c1]
      show ?thesis
      proof (cases r1)
        case (Some x)
        with assms False Inr cb1 have "s' = s1" by (simp add: onRequestSuccess_def)
        moreover from Some f1(3) have "onNext obs \<noteq> None" by (cases "onNext obs") simp_all
        ultimately show ?thesis using f1 by (cases "onNext obs") simp_all
      next
        case None
        with assms False Inr cb1
        have cb2: "call_cb dispose_oneshot Ev_onCompleted (onCompleted obs) s1 = (r, s')"
          by (simp add: onRequestSuccess_def)
        have q2: "\<not> is_quiet (Ev_onCompleted :: 'a event)"
          and c2: "is_callback (Ev_onCompleted :: 'a event)" by simp_all
        from call_cb_oneshot(1,3) [OF cb2 q2] call_cb_oneshot_callbacks [OF cb2 c2] f1
        show ?thesis by (cases "onNext obs"; cases "onCompleted obs") simp_all
      qed
    qed
  qed
  then show "pending s' = pending s" "timers s' = timers s"
    "\<exists>cbs. callbacks (trace s') = callbacks (trace s) @ cbs \<and> oneshot_shape cbs"
    by simp_all
qed

lemma onRequestSuccess_delivers:
  assumes "\<not> isDisposed s" and "normalizePayload I operation variables payload = Inr n"
    and "onNext obs = Some f" and "cb_throws (f (Some n)) = None" and "onCompleted obs = Some c"
  shows "callbacks (trace (snd (onRequestSuccess I operation variables obs payload s))) =
           callbacks (trace s) @ [Ev_onNext (Some n), Ev_onCompleted]"
  using assms
  by (simp add: onRequestSuccess_def call_cb_def dispose_oneshot_fields)

text \<open>Running the reaction of a one-shot request: either its promise is still
  pending and nothing changes, or the reaction is gone and the callbacks it made
  have one of the allowed shapes, none at all when the handle was disposed.\<close>

lemma settle_oneshot:
  assumes "pending s = [j]" and "\<not> is_poll_reaction j" and "timers s = []"
  shows "settle K s = s
         \<or> (pending (settle K s) = [] \<and> timers (settle K s) = []
            \<and> (\<exists>cbs. callbacks (trace (settle K s)) = callbacks (trace s) @ cbs
                  \<and> oneshot_shape cbs \<and> (isDisposed s \<longrightarrow> cbs = [])))"
proof -
  let ?s0 = "s\<lparr>pending := []\<rparr>"
  let ?success = "onRequestSuccess (k_modules K) (k_operation K) (k_variables K) (k_observer K)"
  let ?failure = "onRequestError (k_observer K)"
  have fin1: "pending s1 = [] \<and> timers s1 = []
         \<and> (\<exists>cbs. callbacks (trace s1) = callbacks (trace s) @ cbs
                  \<and> oneshot_shape cbs \<and> (isDisposed s \<longrightarrow> cbs = []))"
    if "?success v ?s0 = (r, s1)" for v r s1
    using onRequestSuccess_fields [OF that] assms(3) by auto
  have fin2: "pending s1 = [] \<and> timers s1 = []
         \<and> (\<exists>cbs. callbacks (trace s1) = callbacks (trace s) @ cbs
                  \<and> oneshot_shape cbs \<and> (isDisposed s \<longrightarrow> cbs = []))"
    if "?failure v ?s0 = (r, s1)" for v r s1
    using onRequestError_fields [OF that] assms(3) by auto
  have quiet: "pending (log ev ?s0) = [] \<and> timers (log ev ?s0) = []" for ev :: "'a event"
    using assms(3) by simp
  show ?thesis
  proof (cases j)
    case (ThenSuccess p)
    show ?thesis
    proof (cases p)
      case (Resolves v)
      obtain r s1 where h: "?success v ?s0 = (r, s1)" by (cases "?success v ?s0")
      from fin1 [OF h] show ?thesis using assms(1) ThenSuccess Resolves h
        by (cases r) (simp_all add: settle_def react_def)
    next
      case (Rejects e)
      then show ?thesis using assms(1,3) ThenSuccess
        by (simp add: settle_def react_def)
    next
      case NeverSettles
      then show ?thesis using assms(1) ThenSuccess by (simp add: settle_def react_def)
    qed
  next
    case (ThenError p)
    show ?thesis
    proof (cases p)
      case (Resolves v)
      obtain r s1 where h: "?failure v ?s0 = (r, s1)" by (cases "?failure v ?s0")
      from fin2 [OF h] show ?thesis using assms(1) ThenError Resolves h
        by (cases r) (simp_all add: settle_def react_def)
    next
      case (Rejects e)
      then show ?thesis using assms(1,3) ThenError
        by (simp add: settle_def react_def)
    next
      case NeverSettles
      then show ?thesis using assms(1) ThenError by (simp add: settle_def react_def)
    qed
  next
    case (ThenBoth p)
    show ?thesis
    proof (cases p)
      case (Resolves v)
      obtain r s1 where h: "?success v ?s0 = (r, s1)" by (cases "?success v ?s0")
      from fin1 [OF h] show ?thesis using assms(1) ThenBoth Resolves h
        by (cases r) (simp_all add: settle_def react_def)
    next
      case (Rejects e)
      obtain r s1 where h: "?failure e ?s0 = (r, s1)" by (cases "?failure e ?s0")
      from fin2 [OF h] show ?thesis using assms(1) ThenBoth Rejects h
        by (cases r) (simp_all add: settle_def react_def)
    next
      case NeverSettles
      then show ?thesis using assms(1) ThenBoth by (simp add: settle_def react_def)
    qed
  next
    case (ThenPoll p)
    with assms(2) show ?thesis by simp
  qed
qed

lemma oneshot_inv_cases:
  assumes "oneshot_inv s"
  shows "timers s = [] \<and> (pending s = [] \<or> (\<exists>j. pending s = [j] \<and> \<not> is_poll_reaction j))"
  using assms by (auto simp add: oneshot_inv_def split: list.splits)

lemma run_oneshot_shape:
  assumes "oneshot_inv s"
  shows "\<exists>cbs. callbacks (trace (run K (OneShot :: 'h handle) is s))
                  = callbacks (trace s) @ cbs
           \<and> oneshot_shape cbs \<and> (isDisposed s \<longrightarrow> cbs = [])"
  using assms
proof (induction "is" arbitrary: s)
  case Nil
  then show ?case by simp
next
  case (Cons i "is")
  from oneshot_inv_cases [OF Cons.prems] have t: "timers s = []"
    and p: "pending s = [] \<or> (\<exists>j. pending s = [j] \<and> \<not> is_poll_reaction j)" by simp_all
  from p show ?case
  proof
    assume e: "pending s = []"
    from run_quiescent [OF e t, of K "OneShot :: 'h handle" "i # is"]
    have "callbacks (trace (run K (OneShot :: 'h handle) (i # is) s)) = callbacks (trace s) @ []"
      by simp
    then show ?thesis by (intro exI [of _ "[]"]) simp
  next
    assume "\<exists>j. pending s = [j] \<and> \<not> is_poll_reaction j"
    then obtain j where j: "pending s = [j]" "\<not> is_poll_reaction j" by blast
    show ?thesis
    proof (cases "i = Settle")
      case False
      from step_waiting [OF t False, of K "OneShot :: 'h handle"]
      have w: "pending (step K (OneShot :: 'h handle) i s) = pending s"
        "timers (step K (OneShot :: 'h handle) i s) = []"
        "callbacks (trace (step K (OneShot :: 'h handle) i s)) = callbacks (trace s)"
        "isDisposed s \<longrightarrow> isDisposed (step K (OneShot :: 'h handle) i s)" by simp_all
      then have "oneshot_inv (step K (OneShot :: 'h handle) i s)"
        using j by (simp add: oneshot_inv_def)
      from Cons.IH [OF this] obtain cbs where
        "callbacks (trace (run K (OneShot :: 'h handle) is (step K (OneShot :: 'h handle) i s))) =
           callbacks (trace (step K (OneShot :: 'h handle) i s)) @ cbs"
        "oneshot_shape cbs" "isDisposed (step K (OneShot :: 'h handle) i s) \<longrightarrow> cbs = []" by blast
      with w show ?thesis by (intro exI [of _ cbs]) simp
    next
      case True
      from settle_oneshot [OF j t, of K] show ?thesis
      proof
        assume same: "settle K s = s"
        from Cons.IH [OF Cons.prems] obtain cbs where
          "callbacks (trace (run K (OneShot :: 'h handle) is s)) = callbacks (trace s) @ cbs"
          "oneshot_shape cbs" "isDisposed s \<longrightarrow> cbs = []" by blast
        then show ?thesis using True same by (intro exI [of _ cbs]) (simp add: step_def)
      next
        assume "pending (settle K s) = [] \<and> timers (settle K s) = []
          \<and> (\<exists>cbs. callbacks (trace (settle K s)) = callbacks (trace s) @ cbs
                  \<and> oneshot_shape cbs \<and> (isDisposed s \<longrightarrow> cbs = []))"
        then obtain cbs where q: "pending (settle K s) = []" "timers (settle K s) = []"
          and c: "callbacks (trace (settle K s)) = callbacks (trace s) @ cbs"
            "oneshot_shape cbs" "isDisposed s \<longrightarrow> cbs = []" by blast
        from run_quiescent [OF q, of K "OneShot :: 'h handle" "is"] c show ?thesis
          using True by (intro exI [of _ cbs]) (simp add: step_def)
      qed
    qed
  qed
qed

lemma requestStream_oneshot_inv:
  assumes "q_operation (b_query operation) \<noteq> ''subscription''"
    and "(case cacheConfig of None \<Rightarrow> None | Some c \<Rightarrow> cfg_poll c) = None"
    and "pending s = []" and "timers s = []"
  shows "oneshot_inv (snd (requestStream I fetch subscribe operation variables cacheConfig obs s))"
    "callbacks (trace (snd (requestStream I fetch subscribe operation variables cacheConfig obs s)))
       = callbacks (trace s)"
    "\<not> isDisposed (snd (requestStream I fetch subscribe operation variables cacheConfig obs s))"
  using assms
  by (simp_all add: requestStream_oneshot Let_def oneshot_inv_def split: response.splits)

lemma settle_oneshot_delivers:
  assumes "pending s = [ThenSuccess (Resolves v)] \<or> pending s = [ThenBoth (Resolves v)]"
    and "timers s = []" and "\<not> isDisposed s"
    and "normalizePayload (k_modules K) (k_operation K) (k_variables K) v = Inr n"
    and "onNext (k_observer K) = Some f" and "cb_throws (f (Some n)) = None"
    and "onCompleted (k_observer K) = Some c"
  shows "pending (settle K s) = []" "timers (settle K s) = []"
    "callbacks (trace (settle K s)) = callbacks (trace s) @ [Ev_onNext (Some n), Ev_onCompleted]"
proof -
  let ?s0 = "s\<lparr>pending := []\<rparr>"
  obtain r s1 where h: "onRequestSuccess (k_modules K) (k_operation K) (k_variables K)
      (k_observer K) v ?s0 = (r, s1)"
    by (cases "onRequestSuccess (k_modules K) (k_operation K) (k_variables K)
      (k_observer K) v ?s0")
  have st: "settle K s = (case r of None \<Rightarrow> s1 | Some e \<Rightarrow> log (Ev_unhandledRejection e) s1)"
    using assms(1) h by (auto simp add: settle_def react_def split: option.splits)
  have nd: "\<not> isDisposed ?s0" using assms(3) by simp
  from onRequestSuccess_delivers [OF nd assms(4-7)] h
  have c: "callbacks (trace s1) = callbacks (trace s) @ [Ev_onNext (Some n), Ev_onCompleted]"
    by simp
  note f = onRequestSuccess_fields(1,2) [OF h]
  show "pending (settle K s) = []" using f by (simp add: st split: option.splits)
  show "timers (settle K s) = []" using f assms(2) by (simp add: st split: option.splits)
  show "callbacks (trace (settle K s)) =
      callbacks (trace s) @ [Ev_onNext (Some n), Ev_onCompleted]"
    using c by (simp add: st split: option.splits)
qed

text \<open>
  One-shot stream requests (not a subscription, no poll interval), for every
  sequence of inputs: the callbacks delivered are none, or \<^verbatim>\<open>onNext\<close> followed by
  \<^verbatim>\<open>onCompleted\<close>, or one \<^verbatim>\<open>onError\<close> (never \<^verbatim>\<open>onError\<close> together with \<^verbatim>\<open>onNext\<close> or
  \<^verbatim>\<open>onCompleted\<close>). When the handle is disposed before the reaction runs, no
  callback is delivered at all. When the reaction runs on a handle that has not
  been disposed, the result normalizes and \<^verbatim>\<open>onNext\<close> returns without disposing the
  handle, \<^verbatim>\<open>onNext\<close> and then \<^verbatim>\<open>onCompleted\<close> are delivered.
\<close>

theorem oneshot_delivery:
  fixes subscribe :: "('n, 'h) subscribe_function option"
  assumes "q_operation (b_query operation) \<noteq> ''subscription''"
    and "(case cacheConfig of None \<Rightarrow> None | Some c \<Rightarrow> cfg_poll c) = None"
    and "pending s = []" and "timers s = []"
  shows "(\<exists>cbs. callbacks (trace (run (closure_of I fetch operation variables cacheConfig obs)
                   (OneShot :: 'h handle) evs
                   (snd (requestStream I fetch subscribe operation variables cacheConfig obs s))))
                = callbacks (trace s) @ cbs
              \<and> oneshot_shape cbs)
         \<and> (Settle \<notin> set pre \<longrightarrow>
              callbacks (trace (run (closure_of I fetch operation variables cacheConfig obs)
                   (OneShot :: 'h handle) (pre @ Dispose # post)
                   (snd (requestStream I fetch subscribe operation variables cacheConfig obs s))))
                = callbacks (trace s))
         \<and> ((fetch (n_fetch s) operation variables cacheConfig None = KindData v
               \<or> fetch (n_fetch s) operation variables cacheConfig None = KindPromise (Resolves v))
              \<and> normalizePayload I operation variables v = Inr n
              \<and> onNext obs = Some f \<and> cb_throws (f (Some n)) = None
              \<and> \<not> cb_disposes (f (Some n)) \<and> onCompleted obs = Some c
              \<longrightarrow>
              callbacks (trace (run (closure_of I fetch operation variables cacheConfig obs)
                   (OneShot :: 'h handle) (Settle # post)
                   (snd (requestStream I fetch subscribe operation variables cacheConfig obs s))))
                = callbacks (trace s) @ [Ev_onNext (Some n), Ev_onCompleted])"
proof -
  define K where "K = closure_of I fetch operation variables cacheConfig obs"
  define s0 where
    "s0 = snd (requestStream I fetch subscribe operation variables cacheConfig obs s)"
  note init = requestStream_oneshot_inv [OF assms, where I = I and fetch = fetch
      and subscribe = subscribe and variables = variables and obs = obs, folded s0_def]
  from oneshot_inv_cases [OF init(1)] have t0: "timers s0 = []" by simp
  have a: "\<exists>cbs. callbacks (trace (run K (OneShot :: 'h handle) evs s0))
                = callbacks (trace s) @ cbs \<and> oneshot_shape cbs"
    using run_oneshot_shape [OF init(1), of K evs, where ?'h = 'h] init(2) by auto
  have b: "callbacks (trace (run K (OneShot :: 'h handle) (pre @ Dispose # post) s0))
             = callbacks (trace s)" if ns: "Settle \<notin> set pre"
  proof -
    define s1 where "s1 = run K (OneShot :: 'h handle) pre s0"
    define s2 where "s2 = dispose_oneshot s1"
    from run_waiting [OF t0 ns, of K "OneShot :: 'h handle"]
    have w: "pending s1 = pending s0" "timers s1 = []"
      "callbacks (trace s1) = callbacks (trace s0)" by (simp_all add: s1_def)
    with init(1) have "oneshot_inv s1" by (simp add: oneshot_inv_def)
    then have i2: "oneshot_inv s2" and d2: "isDisposed s2"
      and c2: "callbacks (trace s2) = callbacks (trace s1)"
      by (simp_all add: s2_def oneshot_inv_def dispose_oneshot_fields)
    from run_oneshot_shape [OF i2, of K post, where ?'h = 'h] d2
    have "callbacks (trace (run K (OneShot :: 'h handle) post s2)) = callbacks (trace s2)"
      by auto
    moreover have "run K (OneShot :: 'h handle) (pre @ Dispose # post) s0 =
        run K (OneShot :: 'h handle) post s2"
      by (simp add: run_append s1_def s2_def step_def dispose_def)
    ultimately show ?thesis using c2 w(3) init(2) by simp
  qed
  have c: "callbacks (trace (run K (OneShot :: 'h handle) (Settle # post) s0))
             = callbacks (trace s) @ [Ev_onNext (Some n), Ev_onCompleted]"
    if h: "(fetch (n_fetch s) operation variables cacheConfig None = KindData v
               \<or> fetch (n_fetch s) operation variables cacheConfig None = KindPromise (Resolves v))
              \<and> normalizePayload I operation variables v = Inr n
              \<and> onNext obs = Some f \<and> cb_throws (f (Some n)) = None
              \<and> \<not> cb_disposes (f (Some n)) \<and> onCompleted obs = Some c"
  proof -
    from h assms(1,2)
    have p0: "pending s0 = [ThenSuccess (Resolves v)] \<or> pending s0 = [ThenBoth (Resolves v)]"
      using assms(3) by (auto simp add: s0_def requestStream_oneshot Let_def)
    from h have k: "normalizePayload (k_modules K) (k_operation K) (k_variables K) v = Inr n"
      "onNext (k_observer K) = Some f" "cb_throws (f (Some n)) = None"
      "onCompleted (k_observer K) = Some c"
      by (simp_all add: K_def closure_of_def)
    note d = settle_oneshot_delivers [OF p0 t0 init(3) k]
    from run_quiescent [OF d(1,2), of K "OneShot :: 'h handle" post] d(3) init(2)
    show ?thesis by (simp add: step_def)
  qed
  from a b c show ?thesis unfolding K_def s0_def by blast
qed

lemmas eval_defs =
  requestStream_def doFetchWithPolling_def poll_def request_def call_fetch_def log_def
  then_promise_def normalizePayload_def closure_of_def step_def dispose_def settle_def fire_def
  react_def onRequestSuccess_def onRequestError_def poll_onRequestSuccess_def
  poll_onRequestError_def call_cb_def dispose_oneshot_def dispose_poll_def clearTimeout_def
  setTimeout_poll_def fresh_def fetch_always_def ex_modules_def ex_query_def ex_observer_def
  disposing_observer_def quiet_def ok_payload_def poll_config_def Let_def

text \<open>
  C8 at an observer whose \<^verbatim>\<open>onNext\<close> disposes the handle it was given. The claim
  asks for the disposed flag to be checked before any callback fires;
  \<^verbatim>\<open>onRequestSuccess\<close> reads it only when it starts, so \<^verbatim>\<open>onCompleted\<close> is delivered
  after the disposal, to a handle that is disposed.
\<close>

theorem onNext_disposal_keeps_onCompleted:
  "trace (run (closure_of ex_modules (fetch_always (KindPromise (Resolves (Some ok_payload))))
                 ex_query ex_variables None disposing_observer)
            (OneShot :: nat handle) [Settle]
            (snd (requestStream ex_modules (fetch_always (KindPromise (Resolves (Some ok_payload))))
                    (None :: (string, nat) subscribe_function option) ex_query ex_variables None
                    disposing_observer fresh))) =
     [Ev_fetch ex_query ex_variables None None, Ev_onNext (Some ''A''), Ev_dispose, Ev_onCompleted]"
  by (simp add: eval_defs)

text \<open>
  C1 at a polling request whose fetch answers with a promise: the caller disposes
  the handle while the promise is pending, then the promise resolves. The poller's
  continuation does not read the disposed flag: \<^verbatim>\<open>onNext\<close> is called and the next
  tick is scheduled, and since the handle is already disposed a second call of
  \<^verbatim>\<open>dispose\<close> does not clear that timer; polling goes on.
\<close>

theorem poll_delivers_after_dispose:
  "fst (requestStream ex_modules (fetch_always (KindPromise (Resolves (Some ok_payload))))
          (None :: (string, nat) subscribe_function option) ex_query ex_variables
          (Some poll_config) ex_observer fresh) = Inr Polling
   \<and> trace (run (closure_of ex_modules (fetch_always (KindPromise (Resolves (Some ok_payload))))
                 ex_query ex_variables (Some poll_config) ex_observer)
            (Polling :: nat handle) [Dispose, Settle]
            (snd (requestStream ex_modules (fetch_always (KindPromise (Resolves (Some ok_payload))))
                    (None :: (string, nat) subscribe_function option) ex_query ex_variables
                    (Some poll_config) ex_observer fresh))) =
       [Ev_fetch ex_query ex_variables (Some force_true) None, Ev_dispose,
        Ev_onNext (Some ''A''), Ev_setTimeout 1 1000]
   \<and> timers (run (closure_of ex_modules (fetch_always (KindPromise (Resolves (Some ok_payload))))
                 ex_query ex_variables (Some poll_config) ex_observer)
            (Polling :: nat handle) [Dispose, Settle]
            (snd (requestStream ex_modules (fetch_always (KindPromise (Resolves (Some ok_payload))))
                    (None :: (string, nat) subscribe_function option) ex_query ex_variables
                    (Some poll_config) ex_observer fresh))) = [1]
   \<and> callbacks (trace (run (closure_of ex_modules
                 (fetch_always (KindPromise (Resolves (Some ok_payload))))
                 ex_query ex_variables (Some poll_config) ex_observer)
            (Polling :: nat handle) [Dispose, Settle, TimerFire, Settle, Dispose]
            (snd (requestStream ex_modules (fetch_always (KindPromise (Resolves (Some ok_payload))))
                    (None :: (string, nat) subscribe_function option) ex_query ex_variables
                    (Some poll_config) ex_observer fresh)))) =
       [Ev_onNext (Some ''A''), Ev_onNext (Some ''A'')]"
  by (simp add: eval_defs)

text \<open>A synchronous error envelope on the one-shot path: the reaction is
  \<^verbatim>\<open>Promise.reject(error).then(onRequestError)\<close>, with \<^verbatim>\<open>onRequestError\<close> as the handler
  for fulfilment, so running it calls nothing and leaves the rejection unhandled,
  whatever the observer is and whatever happens afterwards.\<close>

lemma settle_error_envelope:
  assumes "pending s = [ThenError (Rejects e)]" and "timers s = []"
  shows "settle K s = log (Ev_unhandledRejection e) (s\<lparr>pending := []\<rparr>)"
  using assms by (simp add: settle_def react_def)

lemma run_error_envelope:
  fixes s :: "'n state"
  assumes "timers s = []"
    and "pending s = [ThenError (Rejects e)] \<or> pending s = []"
  shows "callbacks (trace (run K (OneShot :: 'h handle) is s)) = callbacks (trace s)"
  using assms
proof (induction "is" arbitrary: s)
  case Nil
  then show ?case by simp
next
  case (Cons i "is")
  from Cons.prems(2) show ?case
  proof
    assume e: "pending s = []"
    from run_quiescent [OF e Cons.prems(1), of K "OneShot :: 'h handle" "i # is"]
    show ?thesis by simp
  next
    assume p: "pending s = [ThenError (Rejects e)]"
    show ?thesis
    proof (cases "i = Settle")
      case False
      from step_waiting [OF Cons.prems(1) False, of K "OneShot :: 'h handle"]
      have w: "pending (step K (OneShot :: 'h handle) i s) = pending s"
        "timers (step K (OneShot :: 'h handle) i s) = []"
        "callbacks (trace (step K (OneShot :: 'h handle) i s)) = callbacks (trace s)"
        by simp_all
      from Cons.IH [OF w(2)] w(1,3) p show ?thesis by simp
    next
      case True
      let ?s1 = "log (Ev_unhandledRejection e) (s\<lparr>pending := []\<rparr>)"
      have q: "pending ?s1 = []" "timers ?s1 = []" using Cons.prems(1) by simp_all
      from run_quiescent [OF q, of K "OneShot :: 'h handle" "is"]
      show ?thesis
        using True settle_error_envelope [OF p Cons.prems(1), of K] by (simp add: step_def)
    qed
  qed
qed

lemma oneshot_error_envelope_lost:
  fixes subscribe :: "('n, 'h) subscribe_function option"
  assumes "q_operation (b_query operation) \<noteq> ''subscription''"
    and "(case cacheConfig of None \<Rightarrow> None | Some c \<Rightarrow> cfg_poll c) = None"
    and "pending s = []" and "timers s = []"
    and "fetch (n_fetch s) operation variables cacheConfig None = KindError e"
  shows "callbacks (trace (run (closure_of I fetch operation variables cacheConfig obs)
                   (OneShot :: 'h handle) evs
                   (snd (requestStream I fetch subscribe operation variables cacheConfig obs s))))
           = callbacks (trace s)"
proof -
  let ?s0 = "snd (requestStream I fetch subscribe operation variables cacheConfig obs s)"
  from assms have p: "pending ?s0 = [ThenError (Rejects e)]" and t: "timers ?s0 = []"
    and c: "callbacks (trace ?s0) = callbacks (trace s)"
    by (simp_all add: requestStream_oneshot Let_def)
  from run_error_envelope [OF t, of e _ evs, where ?'h = 'h] p c show ?thesis by simp
qed

text \<open>
  C9 at a one-shot request whose fetch answers with a synchronous error envelope.
  The claim has the delivery to \<^verbatim>\<open>onError\<close> deferred to a later turn. No callback
  runs during the call and the error is wrapped in a rejected promise, but its
  reaction is attached with \<^verbatim>\<open>then(onRequestError)\<close>: when the host runs it, the
  reaction is used up, \<^verbatim>\<open>onError\<close> has not been called, and the rejection is
  unhandled. The error is never delivered.
\<close>

theorem sync_error_never_reaches_onError:
  "fst (requestStream ex_modules (fetch_always (KindError (Thrown ''offline'')))
          (None :: (string, nat) subscribe_function option) ex_query ex_variables None
          ex_observer fresh) = Inr OneShot
   \<and> pending (snd (requestStream ex_modules (fetch_always (KindError (Thrown ''offline'')))
          (None :: (string, nat) subscribe_function option) ex_query ex_variables None
          ex_observer fresh)) = [ThenError (Rejects (Thrown ''offline''))]
   \<and> trace (run (closure_of ex_modules (fetch_always (KindError (Thrown ''offline'')))
                 ex_query ex_variables None ex_observer)
            (OneShot :: nat handle) [Settle, Settle, TimerFire]
            (snd (requestStream ex_modules (fetch_always (KindError (Thrown ''offline'')))
                    (None :: (string, nat) subscribe_function option) ex_query ex_variables None
                    ex_observer fresh))) =
       [Ev_fetch ex_query ex_variables None None, Ev_unhandledRejection (Thrown ''offline'')]
   \<and> pending (run (closure_of ex_modules (fetch_always (KindError (Thrown ''offline'')))
                 ex_query ex_variables None ex_observer)
            (OneShot :: nat handle) [Settle, Settle, TimerFire]
            (snd (requestStream ex_modules (fetch_always (KindError (Thrown ''offline'')))
                    (None :: (string, nat) subscribe_function option) ex_query ex_variables None
                    ex_observer fresh))) = []"
  by (simp add: eval_defs)

text \<open>
  The statement about one-shot requests at a request answered with a promise that
  resolves: disposed before the reaction runs, and not disposed.
\<close>

theorem oneshot_delivery_witness:
  "q_operation (b_query ex_query) \<noteq> ''subscription''
   \<and> pending (fresh :: string state) = [] \<and> timers (fresh :: string state) = []
   \<and> callbacks (trace (run (closure_of ex_modules
                 (fetch_always (KindPromise (Resolves (Some ok_payload))))
                 ex_query ex_variables None ex_observer)
            (OneShot :: nat handle) ([TimerFire] @ Dispose # [Settle])
            (snd (requestStream ex_modules (fetch_always (KindPromise (Resolves (Some ok_payload))))
                    (None :: (string, nat) subscribe_function option) ex_query ex_variables None
                    ex_observer fresh)))) = []
   \<and> callbacks (trace (run (closure_of ex_modules
                 (fetch_always (KindPromise (Resolves (Some ok_payload))))
                 ex_query ex_variables None ex_observer)
            (OneShot :: nat handle) (Settle # [Settle])
            (snd (requestStream ex_modules (fetch_always (KindPromise (Resolves (Some ok_payload))))
                    (None :: (string, nat) subscribe_function option) ex_query ex_variables None
                    ex_observer fresh)))) = [Ev_onNext (Some ''A''), Ev_onCompleted]"
proof -
  have h: "q_operation (b_query ex_query) \<noteq> ''subscription''"
    "(case (None :: cache_config option) of None \<Rightarrow> None | Some c \<Rightarrow> cfg_poll c) = None"
    "pending (fresh :: string state) = []" "timers (fresh :: string state) = []"
    by (simp_all add: ex_query_def fresh_def)
  have g: "(fetch_always (KindPromise (Resolves (Some ok_payload)))
              (n_fetch (fresh :: string state)) ex_query ex_variables None None
              = KindData (Some ok_payload)
            \<or> fetch_always (KindPromise (Resolves (Some ok_payload)))
              (n_fetch (fresh :: string state)) ex_query ex_variables None None
              = KindPromise (Resolves (Some ok_payload)))
         \<and> normalizePayload ex_modules ex_query ex_variables (Some ok_payload) = Inr ''A''
         \<and> onNext ex_observer = Some (\<lambda>n. quiet) \<and> cb_throws ((\<lambda>n. quiet) (Some ''A'')) = None
         \<and> \<not> cb_disposes ((\<lambda>n. quiet) (Some ''A'')) \<and> onCompleted ex_observer = Some quiet"
    by (simp add: fetch_always_def normalizePayload_def ex_modules_def ok_payload_def
        ex_observer_def quiet_def)
  have b: "Settle \<notin> set [TimerFire]" by simp
  let ?K = "closure_of ex_modules (fetch_always (KindPromise (Resolves (Some ok_payload))))
              ex_query ex_variables None ex_observer"
  let ?s0 = "snd (requestStream ex_modules
                (fetch_always (KindPromise (Resolves (Some ok_payload))))
                (None :: (string, nat) subscribe_function option) ex_query ex_variables None
                ex_observer fresh)"
  note t = oneshot_delivery [OF h, where I = ex_modules
      and fetch = "fetch_always (KindPromise (Resolves (Some ok_payload)))"
      and subscribe = "None :: (string, nat) subscribe_function option"
      and variables = ex_variables and obs = ex_observer and pre = "[TimerFire]"
      and post = "[Settle]" and v = "Some ok_payload" and n = "''A''" and f = "\<lambda>n. quiet"
      and c = quiet and evs = "[]"]
  from t b have "callbacks (trace (run ?K (OneShot :: nat handle) ([TimerFire] @ Dispose # [Settle])
      ?s0)) = callbacks (trace (fresh :: string state))"
    by blast
  moreover from t g have "callbacks (trace (run ?K (OneShot :: nat handle) (Settle # [Settle])
      ?s0)) = callbacks (trace (fresh :: string state)) @ [Ev_onNext (Some ''A''), Ev_onCompleted]"
    by blast
  moreover have "callbacks (trace (fresh :: string state)) = []" by (simp add: fresh_def)
  ultimately show ?thesis using h by simp
qed

text \<open>
  The theorem at a fetch function that answers the first tick with an error
  envelope, with a call of \<^verbatim>\<open>dispose\<close> before the reaction runs and timer, settle
  and dispose inputs after it.
\<close>

theorem poll_error_stops_witness:
  "pending (fresh :: string state) = [] \<and> timers (fresh :: string state) = []
   \<and> onError ex_observer = Some (\<lambda>e. quiet)
   \<and> requestStream ex_modules (fetch_always (KindError (Thrown ''offline'')))
        (None :: (string, nat) subscribe_function option) ex_query ex_variables
        (Some poll_config) ex_observer fresh =
       (Inr Polling,
        \<lparr>isDisposed = False, timeout = None, timers = [], next_timer = 1,
         pending = [ThenPoll (Rejects (Thrown ''offline''))], n_fetch = 1,
         trace = [Ev_fetch ex_query ex_variables (Some force_true) None]\<rparr>)
   \<and> activity (trace (run (closure_of ex_modules (fetch_always (KindError (Thrown ''offline'')))
                 ex_query ex_variables (Some poll_config) ex_observer)
            (Polling :: nat handle) ([] @ [Dispose] @ Settle # [TimerFire, Settle, Dispose])
            \<lparr>isDisposed = False, timeout = None, timers = [], next_timer = 1,
             pending = [ThenPoll (Rejects (Thrown ''offline''))], n_fetch = 1,
             trace = [Ev_fetch ex_query ex_variables (Some force_true) None]\<rparr>)) =
       [Ev_fetch ex_query ex_variables (Some force_true) None, Ev_onError (Thrown ''offline'')]
   \<and> isDisposed (run (closure_of ex_modules (fetch_always (KindError (Thrown ''offline'')))
                 ex_query ex_variables (Some poll_config) ex_observer)
            (Polling :: nat handle) ([] @ [Dispose] @ Settle # [TimerFire, Settle, Dispose])
            \<lparr>isDisposed = False, timeout = None, timers = [], next_timer = 1,
             pending = [ThenPoll (Rejects (Thrown ''offline''))], n_fetch = 1,
             trace = [Ev_fetch ex_query ex_variables (Some force_true) None]\<rparr>)
   \<and> timers (run (closure_of ex_modules (fetch_always (KindError (Thrown ''offline'')))
                 ex_query ex_variables (Some poll_config) ex_observer)
            (Polling :: nat handle) ([] @ [Dispose] @ Settle # [TimerFire, Settle, Dispose])
            \<lparr>isDisposed = False, timeout = None, timers = [], next_timer = 1,
             pending = [ThenPoll (Rejects (Thrown ''offline''))], n_fetch = 1,
             trace = [Ev_fetch ex_query ex_variables (Some force_true) None]\<rparr>) = []"
proof -
  let ?K = "closure_of ex_modules (fetch_always (KindError (Thrown ''offline'')))
              ex_query ex_variables (Some poll_config) ex_observer"
  let ?s0 = "\<lparr>isDisposed = False, timeout = None, timers = [], next_timer = 1,
             pending = [ThenPoll (Rejects (Thrown ''offline''))], n_fetch = 1,
             trace = [Ev_fetch ex_query ex_variables (Some force_true) None]\<rparr> :: string state"
  have h1: "pending (fresh :: string state) = []" and h2: "timers (fresh :: string state) = []"
    by (simp_all add: fresh_def)
  have h3: "requestStream ex_modules (fetch_always (KindError (Thrown ''offline'')))
        (None :: (string, nat) subscribe_function option) ex_query ex_variables
        (Some poll_config) ex_observer fresh = (Inr Polling, ?s0)"
    by (simp add: eval_defs)
  have h4: "onError ex_observer = Some (\<lambda>e. quiet)" by (simp add: ex_observer_def)
  have h5: "pending (run ?K (Polling :: nat handle) [] ?s0) =
      [ThenPoll (Rejects (Thrown ''offline''))]" by simp
  have h6: "Settle \<notin> set [Dispose]" by simp
  note t = poll_error_stops [OF h1 h2 h3 h4 h5 h6, where post = "[TimerFire, Settle, Dispose]"]
  have "cb_throws quiet = None" by (simp add: quiet_def)
  with t h1 h2 h3 h4 show ?thesis by simp
qed

end
